theory Spec2Isabelle
  imports Main "HOL-Library.AList"
begin

section \<open>JavaScript values\<close>

text \<open>
  Response bodies, request bodies and query values have the TypeScript type \<open>any\<close>.
  They are modelled by the JSON-shaped values below. An object is the list of its own
  properties in the order \<open>Object.entries\<close> enumerates them; looking a property up
  takes the first binding of the key. Numbers are the integers (the values for which
  \<open>String\<close> prints plain decimal digits); fractions, \<open>NaN\<close> and the infinities are
  outside the model.
\<close>

datatype jsval =
    JUndefined
  | JNull
  | JBool bool
  | JNum int
  | JStr string
  | JArr "jsval list"
  | JObj "(string \<times> jsval) list"

text \<open>Truthiness, as tested by \<open>if (v)\<close>, \<open>!v\<close> and \<open>v || w\<close>.\<close>

fun truthy :: "jsval \<Rightarrow> bool" where
  "truthy JUndefined = False"
| "truthy JNull = False"
| "truthy (JBool b) = b"
| "truthy (JNum n) = (n \<noteq> 0)"
| "truthy (JStr s) = (s \<noteq> [])"
| "truthy (JArr xs) = True"
| "truthy (JObj ps) = True"

definition js_or :: "jsval \<Rightarrow> jsval \<Rightarrow> jsval" where
  "js_or a b = (if truthy a then a else b)"

text \<open>
  \<open>opt_prop v k\<close> is the optional property access \<open>v?.k\<close>. It is used with the names
  \<open>message\<close>, \<open>error\<close>, \<open>code\<close>, \<open>details\<close> and \<open>retry_after\<close> only, which no array,
  string, number or boolean has.
\<close>

fun opt_prop :: "jsval \<Rightarrow> string \<Rightarrow> jsval" where
  "opt_prop (JObj ps) k = (case map_of ps k of None \<Rightarrow> JUndefined | Some v \<Rightarrow> v)"
| "opt_prop v k = JUndefined"

text \<open>Decimal digits of a number, as \<open>String(n)\<close> prints an integer.\<close>

definition digit_char :: "nat \<Rightarrow> char" where
  "digit_char d = ''0123456789'' ! d"

fun string_of_nat :: "nat \<Rightarrow> string" where
  "string_of_nat n =
     (if n < 10 then [digit_char n]
      else string_of_nat (n div 10) @ [digit_char (n mod 10)])"

definition string_of_int :: "int \<Rightarrow> string" where
  "string_of_int i =
     (if i < 0 then CHR ''-'' # string_of_nat (nat (- i)) else string_of_nat (nat i))"

text \<open>
  \<open>js_string v\<close> is \<open>String(v)\<close>. An array prints its elements separated by commas,
  with \<open>null\<close> and \<open>undefined\<close> elements printed as the empty string.
\<close>

fun js_string :: "jsval \<Rightarrow> string" and js_join :: "jsval list \<Rightarrow> string" where
  "js_string JUndefined = ''undefined''"
| "js_string JNull = ''null''"
| "js_string (JBool b) = (if b then ''true'' else ''false'')"
| "js_string (JNum n) = string_of_int n"
| "js_string (JStr s) = s"
| "js_string (JArr xs) = js_join xs"
| "js_string (JObj ps) = ''[object Object]''"
| "js_join [] = []"
| "js_join (x # xs) =
     (if x = JUndefined \<or> x = JNull then [] else js_string x)
     @ (if xs = [] then [] else CHR '','' # js_join xs)"

section \<open>Error classes (client/errors)\<close>

datatype error_class =
    RelayError
  | AuthenticationError
  | AuthorizationError
  | NotFoundError
  | ValidationError
  | RateLimitError
  | NetworkError
  | ServerError
  | TimeoutError

text \<open>
  An error object: its class, and the fields \<open>name\<close>, \<open>message\<close>, \<open>status\<close>, \<open>code\<close>,
  \<open>details\<close> and (for the rate-limit class) \<open>retryAfter\<close>. A field that is \<open>undefined\<close>
  is \<open>None\<close> for the numeric status and \<open>JUndefined\<close> for the others.
\<close>

record relay_error =
  cls :: error_class
  name :: string
  message :: string
  status :: "int option"
  code :: jsval
  details :: jsval
  retryAfter :: jsval

text \<open>
  The built-in \<open>Error\<close> constructor, reached through \<open>super(message)\<close>: the message is
  converted with \<open>String\<close> unless it is \<open>undefined\<close>, in which case the object inherits
  the empty message.
\<close>

definition Error_message :: "jsval \<Rightarrow> string" where
  "Error_message m = (if m = JUndefined then [] else js_string m)"

text \<open>A parameter default \<open>p = d\<close> applies exactly when the argument is \<open>undefined\<close>.\<close>

definition param_default :: "jsval \<Rightarrow> jsval \<Rightarrow> jsval" where
  "param_default a d = (if a = JUndefined then d else a)"

definition new_RelayError :: "jsval \<Rightarrow> int option \<Rightarrow> jsval \<Rightarrow> jsval \<Rightarrow> relay_error" where
  "new_RelayError msg st cd det =
     \<lparr> cls = RelayError, name = ''RelayError'', message = Error_message msg,
       status = st, code = cd, details = det, retryAfter = JUndefined \<rparr>"

definition new_AuthenticationError :: "jsval \<Rightarrow> jsval \<Rightarrow> relay_error" where
  "new_AuthenticationError msg det =
     (new_RelayError (param_default msg (JStr ''Authentication failed''))
        (Some 401) (JStr ''AUTHENTICATION_ERROR'') det)
     \<lparr> cls := AuthenticationError, name := ''AuthenticationError'' \<rparr>"

definition new_AuthorizationError :: "jsval \<Rightarrow> jsval \<Rightarrow> relay_error" where
  "new_AuthorizationError msg det =
     (new_RelayError (param_default msg (JStr ''Insufficient permissions''))
        (Some 403) (JStr ''AUTHORIZATION_ERROR'') det)
     \<lparr> cls := AuthorizationError, name := ''AuthorizationError'' \<rparr>"

definition new_NotFoundError :: "jsval \<Rightarrow> jsval \<Rightarrow> relay_error" where
  "new_NotFoundError msg det =
     (new_RelayError (param_default msg (JStr ''Resource not found''))
        (Some 404) (JStr ''NOT_FOUND'') det)
     \<lparr> cls := NotFoundError, name := ''NotFoundError'' \<rparr>"

definition new_ValidationError :: "jsval \<Rightarrow> jsval \<Rightarrow> relay_error" where
  "new_ValidationError msg det =
     (new_RelayError (param_default msg (JStr ''Validation failed''))
        (Some 400) (JStr ''VALIDATION_ERROR'') det)
     \<lparr> cls := ValidationError, name := ''ValidationError'' \<rparr>"

definition new_RateLimitError :: "jsval \<Rightarrow> jsval \<Rightarrow> jsval \<Rightarrow> relay_error" where
  "new_RateLimitError msg ra det =
     (new_RelayError (param_default msg (JStr ''Rate limit exceeded''))
        (Some 429) (JStr ''RATE_LIMIT_ERROR'') det)
     \<lparr> cls := RateLimitError, name := ''RateLimitError'', retryAfter := ra \<rparr>"

definition new_NetworkError :: "jsval \<Rightarrow> jsval \<Rightarrow> relay_error" where
  "new_NetworkError msg det =
     (new_RelayError (param_default msg (JStr ''Network request failed''))
        None (JStr ''NETWORK_ERROR'') det)
     \<lparr> cls := NetworkError, name := ''NetworkError'' \<rparr>"

definition new_ServerError :: "jsval \<Rightarrow> int option \<Rightarrow> jsval \<Rightarrow> relay_error" where
  "new_ServerError msg st det =
     (new_RelayError (param_default msg (JStr ''Internal server error''))
        (Some (case st of None \<Rightarrow> 500 | Some s \<Rightarrow> s)) (JStr ''SERVER_ERROR'') det)
     \<lparr> cls := ServerError, name := ''ServerError'' \<rparr>"

definition new_TimeoutError :: "jsval \<Rightarrow> jsval \<Rightarrow> relay_error" where
  "new_TimeoutError msg det =
     (new_RelayError (param_default msg (JStr ''Request timeout''))
        (Some 408) (JStr ''TIMEOUT_ERROR'') det)
     \<lparr> cls := TimeoutError, name := ''TimeoutError'' \<rparr>"

section \<open>Classification of a failed response (client/http-client)\<close>

definition createErrorFromResponse :: "int \<Rightarrow> jsval \<Rightarrow> relay_error" where
  "createErrorFromResponse st data =
     (let msg = js_or (js_or (opt_prop data ''message'') (opt_prop data ''error''))
                  (JStr ''An error occurred'');
          cd = opt_prop data ''code'';
          det = opt_prop data ''details''
      in if st = 401 then new_AuthenticationError msg det
         else if st = 403 then new_AuthorizationError msg det
         else if st = 404 then new_NotFoundError msg det
         else if st = 400 \<or> st = 422 then new_ValidationError msg det
         else if st = 429 then new_RateLimitError msg (opt_prop data ''retry_after'') det
         else if st = 500 \<or> st = 502 \<or> st = 503 \<or> st = 504
           then new_ServerError msg (Some st) det
         else new_RelayError msg (Some st) cd det)"

section \<open>Query strings (utils/query-params)\<close>

text \<open>
  \<open>URLSearchParams.toString\<close> is the platform's serializer for the media type
  \<open>application/x-www-form-urlencoded\<close>, modelled after the URL standard: the bytes of
  the letters, the digits and of \<open>* - . _\<close> stand for themselves, a space becomes
  \<open>+\<close>, every other byte becomes \<open>%\<close> and two upper-case hexadecimal digits. The pairs
  are written \<open>name=value\<close> and joined by \<open>&\<close>. A \<open>string\<close> is the UTF-8 byte sequence
  of the text.
\<close>

definition hex_char :: "nat \<Rightarrow> char" where
  "hex_char d = ''0123456789ABCDEF'' ! d"

definition form_unreserved :: "char \<Rightarrow> bool" where
  "form_unreserved c =
     (let n = (of_char c :: nat)
      in (48 \<le> n \<and> n \<le> 57) \<or> (65 \<le> n \<and> n \<le> 90) \<or> (97 \<le> n \<and> n \<le> 122)
         \<or> c = CHR ''*'' \<or> c = CHR ''-'' \<or> c = CHR ''.'' \<or> c = CHR ''_'')"

definition form_encode_byte :: "char \<Rightarrow> string" where
  "form_encode_byte c =
     (if form_unreserved c then [c]
      else if c = CHR '' '' then ''+''
      else [CHR ''%'', hex_char ((of_char c :: nat) div 16), hex_char ((of_char c :: nat) mod 16)])"

definition form_encode :: "string \<Rightarrow> string" where
  "form_encode s = concat (map form_encode_byte s)"

fun URLSearchParams_toString :: "(string \<times> string) list \<Rightarrow> string" where
  "URLSearchParams_toString [] = []"
| "URLSearchParams_toString ((k, v) # ps) =
     form_encode k @ CHR ''='' # form_encode v
     @ (if ps = [] then [] else CHR ''&'' # URLSearchParams_toString ps)"

text \<open>
  \<open>searchParams\<close> is the list of pairs appended so far; \<open>forEach\<close> is a \<open>fold\<close> that
  threads it through the entries, and through the elements of an array value.
\<close>

definition searchParams_of :: "(string \<times> jsval) list \<Rightarrow> (string \<times> string) list" where
  "searchParams_of params =
     fold (\<lambda>(key, val) sp.
             if val \<noteq> JUndefined \<and> val \<noteq> JNull then
               (case val of
                  JArr items \<Rightarrow> fold (\<lambda>item sp'. sp' @ [(key, js_string item)]) items sp
                | _ \<Rightarrow> sp @ [(key, js_string val)])
             else sp)
          params []"

definition buildQueryString :: "(string \<times> jsval) list \<Rightarrow> string" where
  "buildQueryString params = URLSearchParams_toString (searchParams_of params)"

definition appendQueryParams :: "string \<Rightarrow> (string \<times> jsval) list \<Rightarrow> string" where
  "appendQueryParams url params =
     (let queryString = buildQueryString params
      in if queryString = [] then url
         else url @ (if CHR ''?'' \<in> set url then ''&'' else ''?'') @ queryString)"

section \<open>Thrown values and awaited computations\<close>

text \<open>
  What a \<open>catch\<close> clause can receive: an instance of \<open>RelayError\<close> (or of a subclass),
  an instance of \<open>TypeError\<close> with its message, or any other value. An ordinary
  \<open>new Error(m)\<close> is the object \<open>JObj [(''message'', JStr m)]\<close>.
\<close>

datatype thrown =
    ThrownRelay relay_error
  | ThrownTypeError string
  | ThrownValue jsval

text \<open>
  The result of awaiting a computation: it is fulfilled with a value, it throws or
  rejects with a value, or it never settles.
\<close>

datatype 'a outcome = Fulfilled 'a | Rejected thrown | Pending

section \<open>HTTP client (client/http-client)\<close>

datatype http_method = GET | POST | PUT | PATCH | DELETE

datatype credentials = Cred_omit | Cred_same_origin | Cred_include

text \<open>The \<open>RequestInit\<close> object handed to the request hook and to \<open>fetch\<close>.\<close>

record request_init =
  ri_method :: http_method
  ri_headers :: "(string \<times> string) list"
  ri_credentials :: credentials
  ri_body :: "string option"

text \<open>
  A platform \<open>Response\<close>: the status, the \<open>content-type\<close> header (\<open>None\<close> when
  \<open>headers.get\<close> returns \<open>null\<close>), and what awaiting \<open>response.json()\<close> and
  \<open>response.text()\<close> gives.
\<close>

record response =
  resp_status :: int
  content_type :: "string option"
  body_json :: "jsval outcome"
  body_text :: "string outcome"

definition resp_ok :: "response \<Rightarrow> bool" where
  "resp_ok r = (200 \<le> resp_status r \<and> resp_status r \<le> 299)"

text \<open>\<open>str_includes s sub\<close> is \<open>s.includes(sub)\<close>.\<close>

fun starts_with :: "string \<Rightarrow> string \<Rightarrow> bool" where
  "starts_with s [] = True"
| "starts_with [] (c # cs) = False"
| "starts_with (d # ds) (c # cs) = (d = c \<and> starts_with ds cs)"

fun str_includes :: "string \<Rightarrow> string \<Rightarrow> bool" where
  "str_includes [] sub = (sub = [])"
| "str_includes (c # cs) sub = (starts_with (c # cs) sub \<or> str_includes cs sub)"

text \<open>
  The options of one call (\<open>RequestOptions\<close>); an absent option is \<open>None\<close>, an absent
  body is \<open>JUndefined\<close>.
\<close>

record request_options =
  opt_method :: "http_method option"
  opt_headers :: "(string \<times> string) list option"
  opt_body :: jsval
  opt_query :: "(string \<times> jsval) list option"
  opt_timeout :: "int option"
  opt_credentials :: "credentials option"

record http_client_config =
  cfg_baseURL :: string
  cfg_apiKey :: string
  cfg_timeout :: "int option"
  cfg_headers :: "(string \<times> string) list option"
  cfg_onRequest :: "(string \<Rightarrow> request_init \<Rightarrow> unit outcome) option"
  cfg_onResponse :: "(response \<Rightarrow> unit outcome) option"
  cfg_onError :: "(relay_error \<Rightarrow> unit outcome) option"

record http_client =
  baseURL :: string
  apiKey :: string
  timeout :: int
  defaultHeaders :: "(string \<times> string) list"
  onRequest :: "(string \<Rightarrow> request_init \<Rightarrow> unit outcome) option"
  onResponse :: "(response \<Rightarrow> unit outcome) option"
  onError :: "(relay_error \<Rightarrow> unit outcome) option"

text \<open>
  Object spread \<open>{...target, ...src}\<close>: every property of \<open>src\<close> is written into
  \<open>target\<close>, replacing the value of a key that is there and adding a new key at the end.
\<close>

definition spread :: "(string \<times> 'v) list \<Rightarrow> (string \<times> 'v) list \<Rightarrow> (string \<times> 'v) list" where
  "spread target src = fold (\<lambda>(k, v). AList.update k v) src target"

text \<open>\<open>s.replace(/\/$/, "")\<close>: one slash at the very end is removed.\<close>

definition strip_trailing_slash :: "string \<Rightarrow> string" where
  "strip_trailing_slash s = (if s \<noteq> [] \<and> last s = CHR ''/'' then butlast s else s)"

definition new_HTTPClient :: "http_client_config \<Rightarrow> http_client" where
  "new_HTTPClient config =
     \<lparr> baseURL = strip_trailing_slash (cfg_baseURL config),
       apiKey = cfg_apiKey config,
       timeout = (case cfg_timeout config of None \<Rightarrow> 30000 | Some t \<Rightarrow> t),
       defaultHeaders =
         spread [(''Content-Type'', ''application/json''),
                 (''User-Agent'', ''relay-api-client-typescript/1.0.0'')]
           (case cfg_headers config of None \<Rightarrow> [] | Some h \<Rightarrow> h),
       onRequest = cfg_onRequest config,
       onResponse = cfg_onResponse config,
       onError = cfg_onError config \<rparr>"

text \<open>
  The platform: \<open>JSON.stringify\<close>, and the race of \<open>fetch(url, requestOptions)\<close> against
  the timer of the given duration. The timer always fires, so the race settles: with
  the response, with what \<open>fetch\<close> rejected with, or with the timer first.
\<close>

datatype net_result = Responded response | FetchRejected thrown | TimerFirst

record platform =
  JSON_stringify :: "jsval \<Rightarrow> string"
  fetch_race :: "string \<Rightarrow> request_init \<Rightarrow> int \<Rightarrow> net_result"

text \<open>What one call does to the outside, in order.\<close>

datatype event =
    OnRequestCalled string request_init
  | FetchCalled string request_init
  | OnResponseCalled response
  | OnErrorCalled relay_error
  | HTTPClientCreated http_client

definition requestHeaders :: "http_client \<Rightarrow> (string \<times> string) list \<Rightarrow> (string \<times> string) list" where
  "requestHeaders c headers =
     AList.update ''Authorization'' (''Bearer '' @ apiKey c)
       (spread (spread [] (defaultHeaders c)) headers)"

definition requestBody :: "platform \<Rightarrow> http_method \<Rightarrow> jsval \<Rightarrow> string option" where
  "requestBody pf method body =
     (if truthy body \<and> method \<noteq> GET
      then Some (case body of JStr s \<Rightarrow> s | _ \<Rightarrow> JSON_stringify pf body)
      else None)"

definition requestURL :: "http_client \<Rightarrow> string \<Rightarrow> request_options \<Rightarrow> string" where
  "requestURL c path options =
     (let url = baseURL c @ path
      in case opt_query options of None \<Rightarrow> url | Some query \<Rightarrow> appendQueryParams url query)"

definition requestInit :: "platform \<Rightarrow> http_client \<Rightarrow> request_options \<Rightarrow> request_init" where
  "requestInit pf c options =
     (let method = (case opt_method options of None \<Rightarrow> GET | Some m \<Rightarrow> m);
          headers = (case opt_headers options of None \<Rightarrow> [] | Some h \<Rightarrow> h);
          creds = (case opt_credentials options of None \<Rightarrow> Cred_same_origin | Some cr \<Rightarrow> cr)
      in \<lparr> ri_method = method, ri_headers = requestHeaders c headers,
           ri_credentials = creds, ri_body = requestBody pf method (opt_body options) \<rparr>)"

definition isJSON :: "response \<Rightarrow> bool" where
  "isJSON r = (case content_type r of None \<Rightarrow> False
               | Some ct \<Rightarrow> str_includes ct ''application/json'')"

definition parseBody :: "response \<Rightarrow> jsval outcome" where
  "parseBody r =
     (if isJSON r then
        (case body_json r of
           Fulfilled v \<Rightarrow> Fulfilled v
         | Rejected e \<Rightarrow> Fulfilled (JObj [])
         | Pending \<Rightarrow> Pending)
      else
        (case body_text r of
           Fulfilled t \<Rightarrow> Fulfilled (if t \<noteq> [] then JObj [(''message'', JStr t)] else JObj [])
         | Rejected e \<Rightarrow> Fulfilled (JObj [])
         | Pending \<Rightarrow> Pending))"

definition handleResponse :: "response \<Rightarrow> jsval outcome" where
  "handleResponse r =
     (case parseBody r of
        Fulfilled data \<Rightarrow>
          if \<not> resp_ok r
          then Rejected (ThrownRelay (createErrorFromResponse (resp_status r) data))
          else Fulfilled data
      | Rejected e \<Rightarrow> Rejected e
      | Pending \<Rightarrow> Pending)"

text \<open>
  \<open>handleError\<close> reads \<open>error.message\<close> of a value that is neither a \<open>RelayError\<close> nor a
  \<open>TypeError\<close>; on \<open>null\<close> and \<open>undefined\<close> that read itself throws a \<open>TypeError\<close>
  (\<open>Inl\<close>). The wording of that message is the engine's own; it is shortened here.
\<close>

fun handleError :: "thrown \<Rightarrow> thrown + relay_error" where
  "handleError (ThrownRelay e) = Inr e"
| "handleError (ThrownTypeError m) =
     Inr (new_NetworkError (JStr ''Network request failed. Please check your connection.'')
            (JObj [(''originalError'', JStr m)]))"
| "handleError (ThrownValue v) =
     (if v = JNull \<or> v = JUndefined
      then Inl (ThrownTypeError ''Cannot read properties of null or undefined'')
      else if opt_prop v ''message'' = JStr ''Failed to fetch''
      then Inr (new_NetworkError (JStr ''Network request failed. Please check your connection.'')
                  (JObj [(''originalError'', opt_prop v ''message'')]))
      else Inr (new_RelayError (js_or (opt_prop v ''message'') (JStr ''An unknown error occurred''))
                  None (JStr ''UNKNOWN_ERROR'') (JObj [(''originalError'', v)])))"

text \<open>The body of the \<open>try\<close> block of \<open>request\<close>: the events it causes and how it ends.\<close>

definition try_block ::
  "platform \<Rightarrow> http_client \<Rightarrow> string \<Rightarrow> request_init \<Rightarrow> int \<Rightarrow> event list \<times> jsval outcome" where
  "try_block pf c url requestOptions tmo =
     (case fetch_race pf url requestOptions tmo of
        TimerFirst \<Rightarrow>
          ([FetchCalled url requestOptions],
           Rejected (ThrownRelay (new_TimeoutError
             (JStr (''Request timeout after '' @ string_of_int tmo @ ''ms'')) JUndefined)))
      | FetchRejected e \<Rightarrow> ([FetchCalled url requestOptions], Rejected e)
      | Responded r \<Rightarrow>
          (case onResponse c of
             None \<Rightarrow> ([FetchCalled url requestOptions], handleResponse r)
           | Some hook \<Rightarrow>
               (case hook r of
                  Fulfilled u \<Rightarrow>
                    ([FetchCalled url requestOptions, OnResponseCalled r], handleResponse r)
                | Rejected e \<Rightarrow>
                    ([FetchCalled url requestOptions, OnResponseCalled r], Rejected e)
                | Pending \<Rightarrow>
                    ([FetchCalled url requestOptions, OnResponseCalled r], Pending))))"

text \<open>The \<open>catch\<close> block of \<open>request\<close>, entered with the value the \<open>try\<close> block threw.\<close>

definition catch_block :: "http_client \<Rightarrow> thrown \<Rightarrow> event list \<times> jsval outcome" where
  "catch_block c error =
     (case handleError error of
        Inl e \<Rightarrow> ([], Rejected e)
      | Inr relayError \<Rightarrow>
          (case onError c of
             None \<Rightarrow> ([], Rejected (ThrownRelay relayError))
           | Some hook \<Rightarrow>
               (case hook relayError of
                  Fulfilled u \<Rightarrow> ([OnErrorCalled relayError], Rejected (ThrownRelay relayError))
                | Rejected e \<Rightarrow> ([OnErrorCalled relayError], Rejected e)
                | Pending \<Rightarrow> ([OnErrorCalled relayError], Pending))))"

definition try_catch ::
  "platform \<Rightarrow> http_client \<Rightarrow> string \<Rightarrow> request_init \<Rightarrow> int \<Rightarrow> event list \<times> jsval outcome" where
  "try_catch pf c url requestOptions tmo =
     (case try_block pf c url requestOptions tmo of
        (evs, Rejected error) \<Rightarrow>
          (case catch_block c error of (evs', res) \<Rightarrow> (evs @ evs', res))
      | (evs, res) \<Rightarrow> (evs, res))"

definition request ::
  "platform \<Rightarrow> http_client \<Rightarrow> string \<Rightarrow> request_options \<Rightarrow> event list \<times> jsval outcome" where
  "request pf c path options =
     (let tmo = (case opt_timeout options of None \<Rightarrow> timeout c | Some t \<Rightarrow> t);
          url = requestURL c path options;
          requestOptions = requestInit pf c options
      in case onRequest c of
           None \<Rightarrow> try_catch pf c url requestOptions tmo
         | Some hook \<Rightarrow>
             (case hook url requestOptions of
                Fulfilled u \<Rightarrow>
                  (case try_catch pf c url requestOptions tmo of
                     (evs, res) \<Rightarrow> (OnRequestCalled url requestOptions # evs, res))
              | Rejected e \<Rightarrow> ([OnRequestCalled url requestOptions], Rejected e)
              | Pending \<Rightarrow> ([OnRequestCalled url requestOptions], Pending)))"

section \<open>Top-level client\<close>

record relay_client_config =
  rc_apiKey :: string
  rc_tenantId :: string
  rc_baseURL :: "string option"
  rc_timeout :: "int option"
  rc_headers :: "(string \<times> string) list option"
  rc_onRequest :: "(string \<Rightarrow> request_init \<Rightarrow> unit outcome) option"
  rc_onResponse :: "(response \<Rightarrow> unit outcome) option"
  rc_onError :: "(relay_error \<Rightarrow> unit outcome) option"

text \<open>
  The constructed client: the tenant identifier and the HTTP client. The seven service
  objects only store these two values and are not modelled.
\<close>

record relay_client =
  tenantId :: string
  httpClient :: http_client

text \<open>
  The constructor: the events it causes, and either the message of the \<open>Error\<close> it
  throws or the client.
\<close>

definition new_RelayClient :: "relay_client_config \<Rightarrow> event list \<times> (string + relay_client)" where
  "new_RelayClient config =
     (if rc_apiKey config = [] then ([], Inl ''API key is required'')
      else if rc_tenantId config = [] then ([], Inl ''Tenant ID is required'')
      else
        (let httpClientConfig =
               \<lparr> cfg_baseURL = (case rc_baseURL config of None \<Rightarrow> ''https://api.relay.com''
                                 | Some b \<Rightarrow> b),
                 cfg_apiKey = rc_apiKey config,
                 cfg_timeout = rc_timeout config,
                 cfg_headers = rc_headers config,
                 cfg_onRequest = rc_onRequest config,
                 cfg_onResponse = rc_onResponse config,
                 cfg_onError = rc_onError config \<rparr>;
             client = new_HTTPClient httpClientConfig
         in ([HTTPClientCreated client],
             Inr \<lparr> tenantId = rc_tenantId config, httpClient = client \<rparr>)))"

section \<open>Conditions on one call\<close>

text \<open>
  The request hook, if there is one, completes normally on the URL and the options of the
  call; the response hook, if there is one, completes normally on the response.
\<close>

definition request_hook_passes :: "http_client \<Rightarrow> string \<Rightarrow> request_init \<Rightarrow> bool" where
  "request_hook_passes c url requestOptions =
     (case onRequest c of None \<Rightarrow> True | Some hook \<Rightarrow> hook url requestOptions = Fulfilled ())"

definition response_hook_passes :: "http_client \<Rightarrow> response \<Rightarrow> bool" where
  "response_hook_passes c r =
     (case onResponse c of None \<Rightarrow> True | Some hook \<Rightarrow> hook r = Fulfilled ())"

text \<open>The thrown value is \<open>null\<close> or \<open>undefined\<close>.\<close>

definition nullish_thrown :: "thrown \<Rightarrow> bool" where
  "nullish_thrown e = (e = ThrownValue JNull \<or> e = ThrownValue JUndefined)"

definition is_OnErrorCalled :: "event \<Rightarrow> bool" where
  "is_OnErrorCalled ev = (case ev of OnErrorCalled e \<Rightarrow> True | _ \<Rightarrow> False)"

section \<open>Specification-side definitions and example inputs\<close>

text \<open>
  The table of the specification, status to kind: 401 AUTHENTICATION, 403 AUTHORIZATION,
  404 NOT_FOUND, 400 and 422 VALIDATION, 429 RATE_LIMIT, 500/502/503/504 SERVER, any
  other status the base kind. It is written from the specification, to be compared with
  \<open>createErrorFromResponse\<close>.
\<close>

definition spec_kind :: "int \<Rightarrow> error_class" where
  "spec_kind st =
     (if st = 401 then AuthenticationError
      else if st = 403 then AuthorizationError
      else if st = 404 then NotFoundError
      else if st = 400 \<or> st = 422 then ValidationError
      else if st = 429 then RateLimitError
      else if st = 500 \<or> st = 502 \<or> st = 503 \<or> st = 504 then ServerError
      else RelayError)"

text \<open>A response with a JSON content type whose body parses to the given value.\<close>

definition json_response :: "int \<Rightarrow> jsval \<Rightarrow> response" where
  "json_response st v =
     \<lparr> resp_status = st, content_type = Some ''application/json; charset=utf-8'',
       body_json = Fulfilled v, body_text = Pending \<rparr>"

definition teapot_body :: jsval where
  "teapot_body = JObj [(''message'', JStr ''short and stout''), (''code'', JStr ''TEAPOT''),
                       (''details'', JObj [(''handle'', JBool True)])]"

text \<open>
  The pairs one entry of a query mapping contributes, written from the specification: none
  for a \<open>null\<close> or \<open>undefined\<close> value, the key once per element for an array, the
  key once for any other value; every value stringified.
\<close>

definition spec_entry_pairs :: "string \<times> jsval \<Rightarrow> (string \<times> string) list" where
  "spec_entry_pairs kv =
     (case kv of (k, v) \<Rightarrow>
        if v = JNull \<or> v = JUndefined then []
        else (case v of
                JArr items \<Rightarrow> map (\<lambda>item. (k, js_string item)) items
              | _ \<Rightarrow> [(k, js_string v)]))"

text \<open>The characters a form-urlencoded string is made of.\<close>

definition form_output_char :: "char \<Rightarrow> bool" where
  "form_output_char c =
     (form_unreserved c \<or> c = CHR ''+'' \<or> c = CHR ''%'' \<or> c = CHR ''='' \<or> c = CHR ''&'')"

text \<open>
  An example platform. Its \<open>JSON.stringify\<close> writes strings between double quotes with
  the double quote and the backslash escaped (control characters, which the real
  function escapes too, do not occur in the examples), skips object properties whose
  value is \<open>undefined\<close> and writes \<open>undefined\<close> array elements as \<open>null\<close>. Its network
  answers every call with the given result.
\<close>

definition json_quote :: "string \<Rightarrow> string" where
  "json_quote s =
     CHR 0x22 # concat (map (\<lambda>c. if c = CHR 0x22 \<or> c = CHR 0x5C then [CHR 0x5C, c] else [c]) s)
     @ [CHR 0x22]"

fun json_encode :: "jsval \<Rightarrow> string"
  and json_elements :: "jsval list \<Rightarrow> string"
  and json_members :: "(string \<times> jsval) list \<Rightarrow> string" where
  "json_encode JUndefined = ''null''"
| "json_encode JNull = ''null''"
| "json_encode (JBool b) = (if b then ''true'' else ''false'')"
| "json_encode (JNum n) = string_of_int n"
| "json_encode (JStr s) = json_quote s"
| "json_encode (JArr xs) = ''['' @ json_elements xs @ '']''"
| "json_encode (JObj ps) = ''{'' @ json_members ps @ ''}''"
| "json_elements [] = []"
| "json_elements (x # xs) =
     json_encode x @ (if xs = [] then [] else CHR '','' # json_elements xs)"
| "json_members [] = []"
| "json_members ((k, v) # ps) =
     (if v = JUndefined then json_members ps
      else json_quote k @ CHR '':'' # json_encode v
           @ (if json_members ps = [] then [] else CHR '','' # json_members ps))"

definition example_platform :: "net_result \<Rightarrow> platform" where
  "example_platform net = \<lparr> JSON_stringify = json_encode, fetch_race = (\<lambda>url ro tmo. net) \<rparr>"

text \<open>An example client without hooks, and example options.\<close>

definition example_config :: http_client_config where
  "example_config =
     \<lparr> cfg_baseURL = ''https://api.relay.com/'', cfg_apiKey = ''relay_test_key'',
       cfg_timeout = None, cfg_headers = Some [(''X-Trace'', ''on''), (''User-Agent'', ''custom/2'')],
       cfg_onRequest = None, cfg_onResponse = None, cfg_onError = None \<rparr>"

definition example_options :: "http_method \<Rightarrow> jsval \<Rightarrow> request_options" where
  "example_options m body =
     \<lparr> opt_method = Some m,
       opt_headers = Some [(''Authorization'', ''Basic intruder''), (''X-Trace'', ''off'')],
       opt_body = body, opt_query = None, opt_timeout = None, opt_credentials = None \<rparr>"

text \<open>A configuration of the top-level client with all three hooks set.\<close>

definition example_relay_config :: "string \<Rightarrow> string \<Rightarrow> relay_client_config" where
  "example_relay_config key tenant =
     \<lparr> rc_apiKey = key, rc_tenantId = tenant, rc_baseURL = None, rc_timeout = None,
       rc_headers = None, rc_onRequest = Some (\<lambda>url ro. Fulfilled ()),
       rc_onResponse = Some (\<lambda>r. Fulfilled ()), rc_onError = Some (\<lambda>e. Fulfilled ()) \<rparr>"

text \<open>
  A client whose three hooks end as given, a GET with a query, and responses whose body
  is text, or is announced as JSON and does not parse.
\<close>

definition hooked_client :: "unit outcome \<Rightarrow> unit outcome \<Rightarrow> unit outcome \<Rightarrow> http_client" where
  "hooked_client a b e =
     new_HTTPClient
       \<lparr> cfg_baseURL = ''https://api.relay.com/'', cfg_apiKey = ''relay_test_key'',
         cfg_timeout = Some 5000, cfg_headers = None,
         cfg_onRequest = Some (\<lambda>url ro. a), cfg_onResponse = Some (\<lambda>r. b),
         cfg_onError = Some (\<lambda>err. e) \<rparr>"

text \<open>The same client without any hook.\<close>

definition plain_client :: http_client where
  "plain_client =
     new_HTTPClient
       \<lparr> cfg_baseURL = ''https://api.relay.com/'', cfg_apiKey = ''relay_test_key'',
         cfg_timeout = Some 5000, cfg_headers = None,
         cfg_onRequest = None, cfg_onResponse = None, cfg_onError = None \<rparr>"

definition list_options :: request_options where
  "list_options =
     \<lparr> opt_method = None, opt_headers = None, opt_body = JUndefined,
       opt_query = Some [(''page'', JNum 2)], opt_timeout = None, opt_credentials = None \<rparr>"

definition list_url :: string where
  "list_url = ''https://api.relay.com/items?page=2''"

definition list_init :: request_init where
  "list_init =
     \<lparr> ri_method = GET,
       ri_headers = [(''Content-Type'', ''application/json''),
                     (''User-Agent'', ''relay-api-client-typescript/1.0.0''),
                     (''Authorization'', ''Bearer relay_test_key'')],
       ri_credentials = Cred_same_origin, ri_body = None \<rparr>"

definition syntax_error :: thrown where
  "syntax_error = ThrownValue (JObj [(''message'', JStr ''Unexpected end of JSON input'')])"

definition text_response :: "int \<Rightarrow> string \<Rightarrow> response" where
  "text_response st t =
     \<lparr> resp_status = st, content_type = Some ''text/plain'',
       body_json = Rejected syntax_error, body_text = Fulfilled t \<rparr>"

definition malformed_json_response :: "int \<Rightarrow> response" where
  "malformed_json_response st =
     \<lparr> resp_status = st, content_type = Some ''application/json'',
       body_json = Rejected syntax_error, body_text = Fulfilled ''{'' \<rparr>"

text \<open>An ordinary \<open>Error\<close> thrown by a hook.\<close>

definition hook_failure :: thrown where
  "hook_failure = ThrownValue (JObj [(''message'', JStr ''hook failed'')])"

section \<open>Classification of failed responses\<close>

lemmas ctor_defs = new_RelayError_def new_AuthenticationError_def new_AuthorizationError_def
  new_NotFoundError_def new_ValidationError_def new_RateLimitError_def new_NetworkError_def
  new_ServerError_def new_TimeoutError_def

lemma cls_create: "cls (createErrorFromResponse st d) = spec_kind st"
  by (simp add: createErrorFromResponse_def spec_kind_def ctor_defs Let_def)

lemma js_or_message_defined:
  "js_or (js_or a b) (JStr ''An error occurred'') \<noteq> JUndefined"
  by (cases a; cases b; simp add: js_or_def)

lemma message_create:
  "message (createErrorFromResponse st d) =
     js_string (js_or (js_or (opt_prop d ''message'') (opt_prop d ''error'')) (JStr ''An error occurred''))"
  using js_or_message_defined[of "opt_prop d ''message''" "opt_prop d ''error''"]
  by (simp add: createErrorFromResponse_def ctor_defs Let_def param_default_def Error_message_def)





lemma handleResponse_not_ok:
  "\<not> resp_ok r \<Longrightarrow> parseBody r = Fulfilled d \<Longrightarrow>
     handleResponse r = Rejected (ThrownRelay (createErrorFromResponse (resp_status r) d))"
  by (simp add: handleResponse_def)

lemma str_includes_example:
  "str_includes ''application/json; charset=utf-8'' ''application/json''"
  by simp

lemma parseBody_json_response: "parseBody (json_response st v) = Fulfilled v"
  by (simp add: parseBody_def isJSON_def json_response_def)



text \<open>
  The sentence C2 fails on a 401 response with an empty body: the message is not the
  default of the authentication class.
\<close>

theorem default_message_counterexample:
  "message (createErrorFromResponse 401 (JObj [])) \<noteq> ''Authentication failed''"
  by (simp add: message_create js_or_def)

text \<open>
  C2, amended. For every status, and so for each of 401, 403, 404, 400, 422, 429, 500,
  502, 503 and 504: when the parsed body has neither a truthy \<open>message\<close> nor a truthy
  \<open>error\<close>, the message of the classified error is \<open>An error occurred\<close>.
\<close>

theorem fallback_message:
  assumes "\<not> truthy (opt_prop d ''message'')" and "\<not> truthy (opt_prop d ''error'')"
  shows "message (createErrorFromResponse st d) = ''An error occurred''"
  using assms by (simp add: message_create js_or_def)

theorem fallback_message_witness:
  "\<not> truthy (opt_prop (JObj []) ''message'') \<and> \<not> truthy (opt_prop (JObj []) ''error'')
   \<and> message (createErrorFromResponse 401 (JObj [])) = ''An error occurred''
   \<and> message (createErrorFromResponse 429 (JObj [])) = ''An error occurred''"
proof -
  have a: "\<not> truthy (opt_prop (JObj []) ''message'')" by simp
  have b: "\<not> truthy (opt_prop (JObj []) ''error'')" by simp
  show ?thesis
    using a b fallback_message[OF a b, of 401] fallback_message[OF a b, of 429] by simp
qed

text \<open>
  C10. The error classified from a 422 response has the numeric status 400, and it is
  the very error classified from a 400 response with the same body.
\<close>

theorem validation_status_422:
  "status (createErrorFromResponse 422 d) = Some 400
   \<and> createErrorFromResponse 422 d = createErrorFromResponse 400 d"
  by (simp add: createErrorFromResponse_def ctor_defs Let_def)

section \<open>Classification of thrown values\<close>

text \<open>
  The sentence C3 fails on an ordinary error thrown inside the exchange, for instance by
  the response hook: it is not a classified error, and it is given the base class with
  the code \<open>UNKNOWN_ERROR\<close> and its own message, not the network class.
\<close>

theorem handleError_unknown_counterexample:
  "handleError (ThrownValue (JObj [(''message'', JStr ''boom'')])) =
     Inr \<lparr> cls = RelayError, name = ''RelayError'', message = ''boom'', status = None,
           code = JStr ''UNKNOWN_ERROR'',
           details = JObj [(''originalError'', JObj [(''message'', JStr ''boom'')])],
           retryAfter = JUndefined \<rparr>"
  by (simp add: new_RelayError_def js_or_def Error_message_def)

lemma js_or_unknown_defined: "js_or a (JStr ''An unknown error occurred'') \<noteq> JUndefined"
  by (cases a) (simp_all add: js_or_def)

lemma message_new_NetworkError:
  "message (new_NetworkError (JStr m) det) = m \<and> cls (new_NetworkError (JStr m) det) = NetworkError
   \<and> code (new_NetworkError (JStr m) det) = JStr ''NETWORK_ERROR''"
  by (simp add: new_NetworkError_def new_RelayError_def param_default_def Error_message_def)

lemma handleError_TypeError:
  "\<exists>e'. handleError (ThrownTypeError m) = Inr e' \<and> cls e' = NetworkError
        \<and> message e' = ''Network request failed. Please check your connection.''"
  by (simp add: message_new_NetworkError)

lemma handleError_failed_to_fetch:
  assumes "opt_prop v ''message'' = JStr ''Failed to fetch''"
  shows "\<exists>e'. handleError (ThrownValue v) = Inr e' \<and> cls e' = NetworkError
        \<and> message e' = ''Network request failed. Please check your connection.''"
proof -
  have "v \<noteq> JNull" and "v \<noteq> JUndefined" using assms by auto
  then show ?thesis using assms by (simp add: message_new_NetworkError)
qed

lemma handleError_other:
  assumes "v \<noteq> JNull" and "v \<noteq> JUndefined"
    and "opt_prop v ''message'' \<noteq> JStr ''Failed to fetch''"
  shows "\<exists>e'. handleError (ThrownValue v) = Inr e' \<and> cls e' = RelayError
        \<and> code e' = JStr ''UNKNOWN_ERROR'' \<and> status e' = None
        \<and> message e' = js_string (js_or (opt_prop v ''message'')
                                      (JStr ''An unknown error occurred''))"
  using assms js_or_unknown_defined[of "opt_prop v ''message''"]
  by (simp add: new_RelayError_def Error_message_def)

text \<open>
  C3, amended. An already classified error is returned unchanged. A \<open>TypeError\<close>, and
  any value whose message is exactly \<open>Failed to fetch\<close>, is classified as the network
  class with the message \<open>Network request failed. Please check your connection.\<close>. Any
  other value except \<open>null\<close> and \<open>undefined\<close> is given the base class with the code
  \<open>UNKNOWN_ERROR\<close>, no status, and its own message, or \<open>An unknown error occurred\<close>
  when it has none.
\<close>

theorem handleError_cases:
  "handleError (ThrownRelay e) = Inr e
   \<and> (\<exists>e'. handleError (ThrownTypeError m) = Inr e' \<and> cls e' = NetworkError
          \<and> message e' = ''Network request failed. Please check your connection.'')
   \<and> (opt_prop v ''message'' = JStr ''Failed to fetch'' \<longrightarrow>
        (\<exists>e'. handleError (ThrownValue v) = Inr e' \<and> cls e' = NetworkError
          \<and> message e' = ''Network request failed. Please check your connection.''))
   \<and> (w \<noteq> JNull \<and> w \<noteq> JUndefined \<and> opt_prop w ''message'' \<noteq> JStr ''Failed to fetch'' \<longrightarrow>
        (\<exists>e'. handleError (ThrownValue w) = Inr e' \<and> cls e' = RelayError
          \<and> code e' = JStr ''UNKNOWN_ERROR'' \<and> status e' = None
          \<and> message e' = js_string (js_or (opt_prop w ''message'')
                                        (JStr ''An unknown error occurred''))))"
  using handleError_TypeError[of m] handleError_failed_to_fetch[of v] handleError_other[of w]
  by (simp only: handleError.simps(1)) blast

theorem handleError_cases_witness:
  "opt_prop (JObj [(''message'', JStr ''Failed to fetch'')]) ''message'' = JStr ''Failed to fetch''
   \<and> JStr ''aborted'' \<noteq> JNull \<and> JStr ''aborted'' \<noteq> JUndefined
   \<and> opt_prop (JStr ''aborted'') ''message'' \<noteq> JStr ''Failed to fetch''
   \<and> handleError (ThrownRelay (new_TimeoutError (JStr ''Request timeout after 5ms'') JUndefined))
       = Inr (new_TimeoutError (JStr ''Request timeout after 5ms'') JUndefined)
   \<and> (\<exists>e'. handleError (ThrownTypeError ''fetch failed'') = Inr e' \<and> cls e' = NetworkError
          \<and> message e' = ''Network request failed. Please check your connection.'')
   \<and> (\<exists>e'. handleError (ThrownValue (JObj [(''message'', JStr ''Failed to fetch'')])) = Inr e'
          \<and> cls e' = NetworkError
          \<and> message e' = ''Network request failed. Please check your connection.'')
   \<and> (\<exists>e'. handleError (ThrownValue (JStr ''aborted'')) = Inr e' \<and> cls e' = RelayError
          \<and> code e' = JStr ''UNKNOWN_ERROR'' \<and> status e' = None
          \<and> message e' = ''An unknown error occurred'')"
proof -
  let ?v = "JObj [(''message'', JStr ''Failed to fetch'')]"
  let ?w = "JStr ''aborted''"
  have a: "opt_prop ?v ''message'' = JStr ''Failed to fetch''" by simp
  have b: "?w \<noteq> JNull \<and> ?w \<noteq> JUndefined \<and> opt_prop ?w ''message'' \<noteq> JStr ''Failed to fetch''"
    by simp
  have m: "js_string (js_or (opt_prop ?w ''message'') (JStr ''An unknown error occurred''))
           = ''An unknown error occurred''"
    by (simp add: js_or_def)
  note t = handleError_cases[of "new_TimeoutError (JStr ''Request timeout after 5ms'') JUndefined"
      "''fetch failed''" ?v ?w, unfolded m]
  show ?thesis using a b t by blast
qed

section \<open>Query strings\<close>

lemma fold_append_items:
  "fold (\<lambda>item sp'. sp' @ [(k, js_string item)]) items sp = sp @ map (\<lambda>item. (k, js_string item)) items"
  by (induction items arbitrary: sp) simp_all

lemma fold_entries:
  "fold (\<lambda>(key, val) sp.
             if val \<noteq> JUndefined \<and> val \<noteq> JNull then
               (case val of
                  JArr items \<Rightarrow> fold (\<lambda>item sp'. sp' @ [(key, js_string item)]) items sp
                | _ \<Rightarrow> sp @ [(key, js_string val)])
             else sp) params acc
   = acc @ concat (map spec_entry_pairs params)"
proof (induction params arbitrary: acc)
  case Nil
  show ?case by simp
next
  case (Cons kv params)
  obtain k v where kv: "kv = (k, v)" by (cases kv)
  show ?case
    by (cases v) (simp_all add: kv Cons.IH spec_entry_pairs_def fold_append_items)
qed

lemma searchParams_of_spec: "searchParams_of params = concat (map spec_entry_pairs params)"
  by (simp add: searchParams_of_def fold_entries)

lemma hex_char_unreserved: "d < 16 \<Longrightarrow> form_unreserved (hex_char d)"
proof -
  assume "d < 16"
  then have "d = 0 \<or> d = 1 \<or> d = 2 \<or> d = 3 \<or> d = 4 \<or> d = 5 \<or> d = 6 \<or> d = 7
      \<or> d = 8 \<or> d = 9 \<or> d = 10 \<or> d = 11 \<or> d = 12 \<or> d = 13 \<or> d = 14 \<or> d = 15"
    by presburger
  then show ?thesis
    by (elim disjE) (simp_all add: hex_char_def form_unreserved_def)
qed

lemma of_char_lt_256: "(of_char c :: nat) < 256"
  by (cases c) simp

lemma form_encode_byte_chars: "c' \<in> set (form_encode_byte c) \<Longrightarrow> form_output_char c'"
proof -
  have "(of_char c :: nat) div 16 < 16" using of_char_lt_256[of c] by linarith
  moreover have "(of_char c :: nat) mod 16 < 16" by simp
  ultimately show "c' \<in> set (form_encode_byte c) \<Longrightarrow> form_output_char c'"
    using hex_char_unreserved
    by (auto simp: form_encode_byte_def form_output_char_def split: if_splits)
qed

lemma form_encode_chars: "c' \<in> set (form_encode s) \<Longrightarrow> form_output_char c'"
  by (auto simp: form_encode_def dest: form_encode_byte_chars)

lemma toString_chars: "c' \<in> set (URLSearchParams_toString ps) \<Longrightarrow> form_output_char c'"
proof (induction ps rule: URLSearchParams_toString.induct)
  case 1
  then show ?case by simp
next
  case (2 k v ps)
  then show ?case
    by (auto dest: form_encode_chars simp: form_output_char_def split: if_splits)
qed

lemma question_mark_not_output: "\<not> form_output_char (CHR ''?'')"
  by (simp add: form_output_char_def form_unreserved_def)


text \<open>
  C7. \<open>buildQueryString\<close> serializes exactly the pairs the specification lists: no pair
  for a key whose value is \<open>null\<close> or \<open>undefined\<close>, one pair per element of an array
  value, one pair for any other value, each value stringified. The output consists of
  unreserved characters, \<open>+\<close>, \<open>%\<close>, \<open>=\<close> and \<open>&\<close> only, so it contains no \<open>?\<close>; the two
  examples of the specification come out as written there.
\<close>

theorem buildQueryString_contract:
  "searchParams_of params = concat (map spec_entry_pairs params)
   \<and> buildQueryString params = URLSearchParams_toString (concat (map spec_entry_pairs params))
   \<and> (\<forall>c \<in> set (buildQueryString params). form_output_char c)
   \<and> CHR ''?'' \<notin> set (buildQueryString params)
   \<and> buildQueryString [(''page'', JNum 1), (''is_active'', JBool True)] = ''page=1&is_active=true''
   \<and> buildQueryString [(''tags'', JArr [JStr ''a'', JStr ''b''])] = ''tags=a&tags=b''"
proof -
  have a: "searchParams_of params = concat (map spec_entry_pairs params)"
    by (rule searchParams_of_spec)
  have b: "buildQueryString params = URLSearchParams_toString (concat (map spec_entry_pairs params))"
    by (simp add: buildQueryString_def a)
  have c: "\<forall>c \<in> set (buildQueryString params). form_output_char c"
    by (simp add: buildQueryString_def toString_chars)
  have d: "CHR ''?'' \<notin> set (buildQueryString params)"
    using c question_mark_not_output by blast
  have e: "buildQueryString [(''page'', JNum 1), (''is_active'', JBool True)] = ''page=1&is_active=true''"
    by code_simp
  have f: "buildQueryString [(''tags'', JArr [JStr ''a'', JStr ''b''])] = ''tags=a&tags=b''"
    by code_simp
  show ?thesis using a b c d e f by blast
qed

theorem buildQueryString_contract_witness:
  "searchParams_of [(''q'', JStr ''a b&c?''), (''skip'', JNull), (''ids'', JArr [JNum 7, JNull]),
                    (''none'', JUndefined), (''off'', JBool False)]
     = [(''q'', ''a b&c?''), (''ids'', ''7''), (''ids'', ''null''), (''off'', ''false'')]
   \<and> buildQueryString [(''q'', JStr ''a b&c?''), (''skip'', JNull), (''ids'', JArr [JNum 7, JNull]),
                    (''none'', JUndefined), (''off'', JBool False)]
     = ''q=a+b%26c%3F&ids=7&ids=null&off=false''
   \<and> CHR ''?'' \<notin> set (buildQueryString [(''q'', JStr ''a b&c?''), (''skip'', JNull),
                    (''ids'', JArr [JNum 7, JNull]), (''none'', JUndefined), (''off'', JBool False)])"
proof -
  let ?p = "[(''q'', JStr ''a b&c?''), (''skip'', JNull), (''ids'', JArr [JNum 7, JNull]),
             (''none'', JUndefined), (''off'', JBool False)]"
  have v: "concat (map spec_entry_pairs ?p)
           = [(''q'', ''a b&c?''), (''ids'', ''7''), (''ids'', ''null''), (''off'', ''false'')]"
    by code_simp
  have w: "URLSearchParams_toString
             [(''q'', ''a b&c?''), (''ids'', ''7''), (''ids'', ''null''), (''off'', ''false'')]
           = ''q=a+b%26c%3F&ids=7&ids=null&off=false''"
    by code_simp
  note t = buildQueryString_contract[of ?p, unfolded v w]
  show ?thesis using t by blast
qed

section \<open>Request headers and body\<close>

lemma map_of_spread: "map_of (spread t s) = map_of t ++ map_of (rev s)"
proof (induction s arbitrary: t)
  case Nil
  show ?case by (simp add: spread_def)
next
  case (Cons kv s)
  obtain k v where kv: "kv = (k, v)" by (cases kv)
  have "map_of (spread t (kv # s)) = map_of (AList.update k v t) ++ map_of (rev s)"
    using Cons.IH[of "AList.update k v t"] by (simp add: spread_def kv)
  also have "\<dots> = (map_of t)(k \<mapsto> v) ++ map_of (rev s)"
    by (simp only: update_conv')
  also have "\<dots> = map_of t ++ map_of (rev (kv # s))"
    by (rule ext) (simp add: kv map_add_def split: option.splits)
  finally show ?case .
qed

lemma map_of_rev_distinct: "distinct (map fst xs) \<Longrightarrow> map_of (rev xs) = map_of xs"
  by (rule map_of_inject_set[THEN iffD2]) (simp_all add: rev_map[symmetric])

lemma distinct_spread: "distinct (map fst t) \<Longrightarrow> distinct (map fst (spread t s))"
proof (induction s arbitrary: t)
  case Nil
  then show ?case by (simp add: spread_def)
next
  case (Cons kv s)
  obtain k v where kv: "kv = (k, v)" by (cases kv)
  have "spread t (kv # s) = spread (AList.update k v t) s"
    by (simp add: spread_def kv)
  then show ?case using Cons by (simp add: distinct_update)
qed

lemma distinct_defaultHeaders: "distinct (map fst (defaultHeaders (new_HTTPClient config)))"
  by (simp add: new_HTTPClient_def distinct_spread)


lemma map_of_requestHeaders:
  assumes "distinct (map fst (defaultHeaders c))" and "distinct (map fst hs)"
  shows "map_of (requestHeaders c hs) =
           (map_of (defaultHeaders c) ++ map_of hs)(''Authorization'' \<mapsto> ''Bearer '' @ apiKey c)"
  using assms
  by (simp add: requestHeaders_def update_conv' map_of_spread map_of_rev_distinct)

lemma distinct_requestHeaders: "distinct (map fst (requestHeaders c hs))"
  by (simp add: requestHeaders_def distinct_update distinct_spread)

text \<open>
  C6. The headers of every request, as a mapping, are the client's default headers
  overridden by the per-call headers, overridden in turn by \<open>Authorization\<close> with the value
  \<open>Bearer\<close> followed by the token: the lookup of \<open>Authorization\<close> gives that value whatever
  the configured and the per-call headers are, and any other name gives the per-call
  value if there is one and the default otherwise. (The per-call headers are an object,
  so their names are distinct.)
\<close>

theorem request_headers_merge:
  assumes "hs = (case opt_headers options of None \<Rightarrow> [] | Some h \<Rightarrow> h)"
    and "distinct (map fst hs)"
    and "c = new_HTTPClient config"
  shows "map_of (ri_headers (requestInit pf c options)) =
           (map_of (defaultHeaders c) ++ map_of hs)(''Authorization'' \<mapsto> ''Bearer '' @ apiKey c)
         \<and> map_of (ri_headers (requestInit pf c options)) ''Authorization''
             = Some (''Bearer '' @ cfg_apiKey config)
         \<and> (\<forall>k. k \<noteq> ''Authorization'' \<longrightarrow>
               map_of (ri_headers (requestInit pf c options)) k =
                 (case map_of hs k of Some v \<Rightarrow> Some v | None \<Rightarrow> map_of (defaultHeaders c) k))
         \<and> distinct (map fst (ri_headers (requestInit pf c options)))"
proof -
  have r: "ri_headers (requestInit pf c options) = requestHeaders c hs"
    by (simp add: requestInit_def Let_def assms(1))
  have d: "distinct (map fst (defaultHeaders c))"
    by (simp add: assms(3) distinct_defaultHeaders)
  have m: "map_of (requestHeaders c hs) =
           (map_of (defaultHeaders c) ++ map_of hs)(''Authorization'' \<mapsto> ''Bearer '' @ apiKey c)"
    using d assms(2) by (rule map_of_requestHeaders)
  have k: "apiKey c = cfg_apiKey config"
    by (simp add: assms(3) new_HTTPClient_def)
  have o: "\<forall>k. k \<noteq> ''Authorization'' \<longrightarrow>
               map_of (requestHeaders c hs) k =
                 (case map_of hs k of Some v \<Rightarrow> Some v | None \<Rightarrow> map_of (defaultHeaders c) k)"
    by (simp add: m map_add_def split: option.splits)
  show ?thesis
    using m o distinct_requestHeaders[of c hs] by (simp add: r k)
qed

theorem request_headers_merge_witness:
  "distinct (map fst [(''Authorization'', ''Basic intruder''), (''X-Trace'', ''off'')])
   \<and> ri_headers (requestInit (example_platform TimerFirst) (new_HTTPClient example_config)
        (example_options GET JUndefined))
      = [(''Content-Type'', ''application/json''), (''User-Agent'', ''custom/2''),
         (''X-Trace'', ''off''), (''Authorization'', ''Bearer relay_test_key'')]
   \<and> map_of (ri_headers (requestInit (example_platform TimerFirst) (new_HTTPClient example_config)
        (example_options GET JUndefined))) ''Authorization'' = Some ''Bearer relay_test_key''
   \<and> map_of (ri_headers (requestInit (example_platform TimerFirst) (new_HTTPClient example_config)
        (example_options GET JUndefined))) ''X-Trace'' = Some ''off''
   \<and> map_of (ri_headers (requestInit (example_platform TimerFirst) (new_HTTPClient example_config)
        (example_options GET JUndefined))) ''User-Agent'' = Some ''custom/2''"
proof -
  let ?hs = "[(''Authorization'', ''Basic intruder''), (''X-Trace'', ''off'')]"
  let ?c = "new_HTTPClient example_config"
  let ?o = "example_options GET JUndefined"
  have a: "?hs = (case opt_headers ?o of None \<Rightarrow> [] | Some h \<Rightarrow> h)"
    by (simp add: example_options_def)
  have b: "distinct (map fst ?hs)" by simp
  have dh: "defaultHeaders ?c = [(''Content-Type'', ''application/json''), (''User-Agent'', ''custom/2''),
         (''X-Trace'', ''on'')]"
    by (simp add: new_HTTPClient_def example_config_def spread_def)
  have e: "ri_headers (requestInit (example_platform TimerFirst) ?c ?o)
      = [(''Content-Type'', ''application/json''), (''User-Agent'', ''custom/2''),
         (''X-Trace'', ''off''), (''Authorization'', ''Bearer relay_test_key'')]"
    by (simp add: requestInit_def Let_def requestHeaders_def dh spread_def example_options_def)
       (simp add: new_HTTPClient_def example_config_def)
  note t = request_headers_merge[OF a b refl, of "example_platform TimerFirst"]
  have t1: "map_of (ri_headers (requestInit (example_platform TimerFirst) ?c ?o)) ''Authorization''
             = Some (''Bearer '' @ cfg_apiKey example_config)"
    using t by blast
  have t2: "\<forall>k. k \<noteq> ''Authorization'' \<longrightarrow>
               map_of (ri_headers (requestInit (example_platform TimerFirst) ?c ?o)) k =
                 (case map_of ?hs k of Some v \<Rightarrow> Some v | None \<Rightarrow> map_of (defaultHeaders ?c) k)"
    using t by blast
  have t3: "map_of (ri_headers (requestInit (example_platform TimerFirst) ?c ?o)) ''X-Trace'' = Some ''off''"
    using t2[rule_format, of "''X-Trace''"] by simp
  have t4: "map_of (ri_headers (requestInit (example_platform TimerFirst) ?c ?o)) ''User-Agent'' = Some ''custom/2''"
    using t2[rule_format, of "''User-Agent''"] by (simp add: dh)
  show ?thesis
    using b e t1 t3 t4 by (simp add: example_config_def)
qed

text \<open>
  The sentence C8 fails when the body is present but falsy: a POST with the body \<open>0\<close>, or
  with the body \<open>false\<close>, is sent without any body, not with the JSON encoding.
\<close>

theorem falsy_body_counterexample:
  "ri_body (requestInit (example_platform TimerFirst) (new_HTTPClient example_config)
      (example_options POST (JNum 0))) = None
   \<and> ri_body (requestInit (example_platform TimerFirst) (new_HTTPClient example_config)
      (example_options POST (JBool False))) = None
   \<and> JSON_stringify (example_platform TimerFirst) (JNum 0) = ''0''"
  by (simp add: requestInit_def Let_def requestBody_def example_options_def example_platform_def
       string_of_int_def digit_char_def)

text \<open>
  C8, amended. When the body is truthy (not \<open>undefined\<close>, \<open>null\<close>, \<open>false\<close>, \<open>0\<close> or the
  empty string) and the method is not GET, the body sent is the body itself if it is a
  string and its JSON encoding otherwise; when the method is GET (given or by default)
  no body is attached.
\<close>

theorem request_body_serialization:
  "(truthy (opt_body options) \<and> opt_method options = Some m \<and> m \<noteq> GET \<longrightarrow>
      ri_body (requestInit pf c options) =
        Some (case opt_body options of JStr s \<Rightarrow> s | b \<Rightarrow> JSON_stringify pf b))
   \<and> (opt_method options' = Some GET \<or> opt_method options' = None \<longrightarrow>
        ri_body (requestInit pf c options') = None)"
  by (cases "opt_body options") (auto simp: requestInit_def Let_def requestBody_def)

theorem request_body_serialization_witness:
  "truthy (JStr ''raw text'') \<and> POST \<noteq> GET
   \<and> ri_body (requestInit (example_platform TimerFirst) (new_HTTPClient example_config)
        (example_options POST (JStr ''raw text''))) = Some ''raw text''
   \<and> truthy (JObj [(''name'', JStr ''a''), (''n'', JNum 2)]) \<and> PUT \<noteq> GET
   \<and> ri_body (requestInit (example_platform TimerFirst) (new_HTTPClient example_config)
        (example_options PUT (JObj [(''name'', JStr ''a''), (''n'', JNum 2)])))
      = Some (json_encode (JObj [(''name'', JStr ''a''), (''n'', JNum 2)]))
   \<and> ri_body (requestInit (example_platform TimerFirst) (new_HTTPClient example_config)
        (example_options GET (JStr ''raw text''))) = None"
proof -
  let ?pf = "example_platform TimerFirst"
  let ?c = "new_HTTPClient example_config"
  have o: "opt_method (example_options m b) = Some m" "opt_body (example_options m b) = b" for m b
    by (simp_all add: example_options_def)
  have j: "JSON_stringify ?pf = json_encode" by (simp add: example_platform_def)
  note t1 = request_body_serialization[of "example_options POST (JStr ''raw text'')" POST ?pf ?c
      "example_options GET (JStr ''raw text'')", unfolded o]
  note t2 = request_body_serialization[of "example_options PUT (JObj [(''name'', JStr ''a''), (''n'', JNum 2)])"
      PUT ?pf ?c "example_options GET (JStr ''raw text'')", unfolded o j]
  show ?thesis using t1 t2 by simp
qed

section \<open>Construction of the top-level client\<close>

text \<open>
  C9. With an empty API key or an empty tenant identifier the constructor throws, and it
  has caused no event before: no hook was called, no network call was made and no HTTP
  client was created.
\<close>

theorem constructor_rejects_empty_credentials:
  assumes "rc_apiKey config = [] \<or> rc_tenantId config = []"
  shows "new_RelayClient config =
           ([], Inl (if rc_apiKey config = [] then ''API key is required''
                     else ''Tenant ID is required''))"
  using assms by (auto simp: new_RelayClient_def)

theorem constructor_rejects_empty_credentials_witness:
  "rc_apiKey (example_relay_config [] ''tenant-1'') = []
   \<and> new_RelayClient (example_relay_config [] ''tenant-1'') = ([], Inl ''API key is required'')
   \<and> rc_tenantId (example_relay_config ''relay_test_key'' []) = []
   \<and> new_RelayClient (example_relay_config ''relay_test_key'' []) = ([], Inl ''Tenant ID is required'')"
proof -
  let ?a = "example_relay_config [] ''tenant-1''"
  let ?b = "example_relay_config ''relay_test_key'' []"
  have a: "rc_apiKey ?a = [] \<or> rc_tenantId ?a = []" by (simp add: example_relay_config_def)
  have b: "rc_apiKey ?b = [] \<or> rc_tenantId ?b = []" by (simp add: example_relay_config_def)
  show ?thesis
    using constructor_rejects_empty_credentials[OF a] constructor_rejects_empty_credentials[OF b]
    by (simp add: example_relay_config_def)
qed

section \<open>The request pipeline\<close>

lemma parseBody_not_Rejected: "parseBody r \<noteq> Rejected e"
  by (simp add: parseBody_def split: outcome.splits)

lemma handleResponse_ok: "resp_ok r \<Longrightarrow> handleResponse r = parseBody r"
  using parseBody_not_Rejected[of r]
  by (cases "parseBody r") (simp_all add: handleResponse_def)

lemma try_block_Responded:
  assumes "fetch_race pf url ro tmo = Responded r" and "response_hook_passes c r"
  shows "try_block pf c url ro tmo =
           (FetchCalled url ro # (if onResponse c = None then [] else [OnResponseCalled r]),
            handleResponse r)"
  using assms
  by (cases "onResponse c") (simp_all add: try_block_def response_hook_passes_def)

lemma try_catch_not_Rejected:
  assumes "try_block pf c url ro tmo = (evs, res)" and "\<And>e. res \<noteq> Rejected e"
  shows "try_catch pf c url ro tmo = (evs, res)"
  using assms by (cases res) (auto simp: try_catch_def)

lemma request_after_hook:
  assumes "request_hook_passes c (requestURL c path options) (requestInit pf c options)"
  shows "request pf c path options =
           (case try_catch pf c (requestURL c path options) (requestInit pf c options)
                   (case opt_timeout options of None \<Rightarrow> timeout c | Some t \<Rightarrow> t) of
              (evs, res) \<Rightarrow>
                ((if onRequest c = None then []
                  else [OnRequestCalled (requestURL c path options) (requestInit pf c options)]) @ evs,
                 res))"
  using assms
  by (cases "onRequest c")
     (simp_all add: request_def request_hook_passes_def Let_def split: prod.splits)

lemma list_request_url:
  "requestURL (hooked_client a b e) ''/items'' list_options = list_url"
  by (simp add: requestURL_def hooked_client_def new_HTTPClient_def strip_trailing_slash_def
        list_options_def list_url_def appendQueryParams_def Let_def)
     code_simp

lemma list_request_init:
  "requestInit pf (hooked_client a b e) list_options = list_init"
  by (simp add: requestInit_def requestHeaders_def requestBody_def hooked_client_def
        new_HTTPClient_def list_options_def list_init_def spread_def Let_def)

lemma list_request_timeout:
  "(case opt_timeout list_options of None \<Rightarrow> timeout (hooked_client a b e) | Some t \<Rightarrow> t) = 5000"
  by (simp add: list_options_def hooked_client_def new_HTTPClient_def)

lemma hooked_client_hooks:
  "onRequest (hooked_client a b e) = Some (\<lambda>url ro. a)"
  "onResponse (hooked_client a b e) = Some (\<lambda>r. b)"
  "onError (hooked_client a b e) = Some (\<lambda>err. e)"
  by (simp_all add: hooked_client_def new_HTTPClient_def)

text \<open>
  The sentence C5 fails on a 2xx response when the response hook throws: the hook runs
  inside the \<open>try\<close> block, so what it throws is classified (here as the base class with
  the code \<open>UNKNOWN_ERROR\<close>), the error hook is called, and \<open>request\<close> rejects instead of
  returning the parsed body.
\<close>

theorem throwing_response_hook_counterexample:
  "resp_ok (json_response 200 teapot_body)
   \<and> request (example_platform (Responded (json_response 200 teapot_body)))
        (hooked_client (Fulfilled ()) (Rejected hook_failure) (Fulfilled ())) ''/items'' list_options
     = ([OnRequestCalled list_url list_init, FetchCalled list_url list_init,
         OnResponseCalled (json_response 200 teapot_body),
         OnErrorCalled (new_RelayError (JStr ''hook failed'') None (JStr ''UNKNOWN_ERROR'')
           (JObj [(''originalError'', JObj [(''message'', JStr ''hook failed'')])]))],
        Rejected (ThrownRelay (new_RelayError (JStr ''hook failed'') None (JStr ''UNKNOWN_ERROR'')
           (JObj [(''originalError'', JObj [(''message'', JStr ''hook failed'')])]))))"
  by (simp add: request_def Let_def list_request_url list_request_init list_request_timeout
        hooked_client_hooks try_catch_def try_block_def catch_block_def example_platform_def
        hook_failure_def js_or_def resp_ok_def json_response_def)

text \<open>
  C5, amended. For a response with a 2xx status, \<open>handleResponse\<close> gives the parsed
  body as it is.
  When the request hook and the response hook (if configured) complete normally,
  \<open>request\<close> ends with that parsed body, and the only events are the request hook, the
  network call and the response hook: nothing is classified and the error hook is not
  called. Parsing never fails: a body announced as JSON that does not parse, a text body
  that is empty, and a body that cannot be read all give the empty object; a body that
  parses is returned unchanged, and a non-empty text is wrapped as \<open>{message: text}\<close>.
\<close>

theorem success_returns_parsed_body:
  assumes "resp_ok r"
  shows "handleResponse r = parseBody r
     \<and> (\<forall>e. parseBody r \<noteq> Rejected e)
     \<and> (isJSON r \<longrightarrow>
           (\<forall>v. body_json r = Fulfilled v \<longrightarrow> parseBody r = Fulfilled v)
         \<and> (\<forall>e. body_json r = Rejected e \<longrightarrow> parseBody r = Fulfilled (JObj [])))
     \<and> (\<not> isJSON r \<longrightarrow>
           (\<forall>t. body_text r = Fulfilled t \<and> t \<noteq> [] \<longrightarrow>
                 parseBody r = Fulfilled (JObj [(''message'', JStr t)]))
         \<and> (body_text r = Fulfilled [] \<longrightarrow> parseBody r = Fulfilled (JObj []))
         \<and> (\<forall>e. body_text r = Rejected e \<longrightarrow> parseBody r = Fulfilled (JObj [])))
     \<and> (\<forall>url ro tmo.
           url = requestURL c path options \<and> ro = requestInit pf c options
           \<and> tmo = (case opt_timeout options of None \<Rightarrow> timeout c | Some t \<Rightarrow> t)
           \<and> request_hook_passes c url ro \<and> fetch_race pf url ro tmo = Responded r
           \<and> response_hook_passes c r \<longrightarrow>
           request pf c path options =
             ((if onRequest c = None then [] else [OnRequestCalled url ro]) @ [FetchCalled url ro]
                @ (if onResponse c = None then [] else [OnResponseCalled r]),
              parseBody r))"
proof -
  have h: "handleResponse r = parseBody r"
    using assms by (rule handleResponse_ok)
  have rq: "request pf c path options =
         ((if onRequest c = None then [] else [OnRequestCalled url ro]) @ [FetchCalled url ro]
            @ (if onResponse c = None then [] else [OnResponseCalled r]),
          parseBody r)"
    if u: "url = requestURL c path options" and i: "ro = requestInit pf c options"
      and m: "tmo = (case opt_timeout options of None \<Rightarrow> timeout c | Some t \<Rightarrow> t)"
      and q: "request_hook_passes c url ro" and f: "fetch_race pf url ro tmo = Responded r"
      and p: "response_hook_passes c r"
    for url ro tmo
  proof -
    have t: "try_block pf c url ro tmo =
             (FetchCalled url ro # (if onResponse c = None then [] else [OnResponseCalled r]),
              parseBody r)"
      using try_block_Responded[OF f p] by (simp add: h)
    have tc: "try_catch pf c url ro tmo =
             (FetchCalled url ro # (if onResponse c = None then [] else [OnResponseCalled r]),
              parseBody r)"
      using t parseBody_not_Rejected by (rule try_catch_not_Rejected)
    show ?thesis
      using request_after_hook[of c path options pf] q tc by (simp add: u i m)
  qed
  have pj: "isJSON r \<longrightarrow>
           (\<forall>v. body_json r = Fulfilled v \<longrightarrow> parseBody r = Fulfilled v)
         \<and> (\<forall>e. body_json r = Rejected e \<longrightarrow> parseBody r = Fulfilled (JObj []))"
    by (simp add: parseBody_def)
  have pt: "\<not> isJSON r \<longrightarrow>
           (\<forall>t. body_text r = Fulfilled t \<and> t \<noteq> [] \<longrightarrow>
                 parseBody r = Fulfilled (JObj [(''message'', JStr t)]))
         \<and> (body_text r = Fulfilled [] \<longrightarrow> parseBody r = Fulfilled (JObj []))
         \<and> (\<forall>e. body_text r = Rejected e \<longrightarrow> parseBody r = Fulfilled (JObj []))"
    by (simp add: parseBody_def)
  show ?thesis
    using h rq parseBody_not_Rejected pj pt by blast
qed

theorem success_returns_parsed_body_witness:
  "resp_ok (json_response 200 teapot_body)
   \<and> request_hook_passes (hooked_client (Fulfilled ()) (Fulfilled ()) (Fulfilled ())) list_url list_init
   \<and> response_hook_passes (hooked_client (Fulfilled ()) (Fulfilled ()) (Fulfilled ()))
        (json_response 200 teapot_body)
   \<and> handleResponse (json_response 200 teapot_body) = Fulfilled teapot_body
   \<and> request (example_platform (Responded (json_response 200 teapot_body)))
        (hooked_client (Fulfilled ()) (Fulfilled ()) (Fulfilled ())) ''/items'' list_options
      = ([OnRequestCalled list_url list_init, FetchCalled list_url list_init,
          OnResponseCalled (json_response 200 teapot_body)],
         Fulfilled teapot_body)
   \<and> request (example_platform (Responded (malformed_json_response 200)))
        (hooked_client (Fulfilled ()) (Fulfilled ()) (Fulfilled ())) ''/items'' list_options
      = ([OnRequestCalled list_url list_init, FetchCalled list_url list_init,
          OnResponseCalled (malformed_json_response 200)],
         Fulfilled (JObj []))
   \<and> request (example_platform (Responded (text_response 204 [])))
        (hooked_client (Fulfilled ()) (Fulfilled ()) (Fulfilled ())) ''/items'' list_options
      = ([OnRequestCalled list_url list_init, FetchCalled list_url list_init,
          OnResponseCalled (text_response 204 [])],
         Fulfilled (JObj []))
   \<and> request (example_platform (Responded (text_response 200 ''pong'')))
        (hooked_client (Fulfilled ()) (Fulfilled ()) (Fulfilled ())) ''/items'' list_options
      = ([OnRequestCalled list_url list_init, FetchCalled list_url list_init,
          OnResponseCalled (text_response 200 ''pong'')],
         Fulfilled (JObj [(''message'', JStr ''pong'')]))"
proof -
  let ?c = "hooked_client (Fulfilled ()) (Fulfilled ()) (Fulfilled ())"
  have u: "list_url = requestURL ?c ''/items'' list_options"
    by (simp add: list_request_url)
  have i: "list_init = requestInit pf ?c list_options" for pf
    by (simp add: list_request_init)
  have m: "5000 = (case opt_timeout list_options of None \<Rightarrow> timeout ?c | Some t \<Rightarrow> t)"
    by (simp add: list_request_timeout)
  have q: "request_hook_passes ?c list_url list_init"
    by (simp add: request_hook_passes_def hooked_client_hooks)
  have p: "response_hook_passes ?c r" for r
    by (simp add: response_hook_passes_def hooked_client_hooks)
  have f: "fetch_race (example_platform (Responded r)) list_url list_init 5000 = Responded r" for r
    by (simp add: example_platform_def)
  have hk: "onRequest ?c \<noteq> None" "onResponse ?c \<noteq> None"
    by (simp_all add: hooked_client_hooks)
  have k1: "resp_ok (json_response 200 teapot_body)"
    by (simp add: resp_ok_def json_response_def)
  have k2: "resp_ok (malformed_json_response 200)"
    by (simp add: resp_ok_def malformed_json_response_def)
  have k3: "resp_ok (text_response 204 [])"
    by (simp add: resp_ok_def text_response_def)
  have k4: "resp_ok (text_response 200 ''pong'')"
    by (simp add: resp_ok_def text_response_def)
  have j2: "isJSON (malformed_json_response 200)"
    "body_json (malformed_json_response 200) = Rejected syntax_error"
    by (simp_all add: isJSON_def malformed_json_response_def)
  have j3: "\<not> isJSON (text_response st t)" "body_text (text_response st t) = Fulfilled t" for st t
    by (simp_all add: isJSON_def text_response_def)
  have run: "request (example_platform (Responded r)) ?c ''/items'' list_options
      = ([OnRequestCalled list_url list_init, FetchCalled list_url list_init, OnResponseCalled r],
         parseBody r)"
    if k: "resp_ok r" for r
  proof -
    note t = success_returns_parsed_body[OF k, of ?c "''/items''" list_options
        "example_platform (Responded r)"]
    note e = t[THEN conjunct2, THEN conjunct2, THEN conjunct2, THEN conjunct2, rule_format,
        of list_url list_init 5000]
    have pre: "list_url = requestURL ?c ''/items'' list_options
        \<and> list_init = requestInit (example_platform (Responded r)) ?c list_options
        \<and> 5000 = (case opt_timeout list_options of None \<Rightarrow> timeout ?c | Some t \<Rightarrow> t)
        \<and> request_hook_passes ?c list_url list_init
        \<and> fetch_race (example_platform (Responded r)) list_url list_init 5000 = Responded r
        \<and> response_hook_passes ?c r"
      using u i m q f p by (intro conjI)
    show ?thesis using e[OF pre] by (simp add: hk)
  qed
  note t1 = success_returns_parsed_body[OF k1, of ?c "''/items''" list_options
      "example_platform (Responded (json_response 200 teapot_body))"]
  note t2 = success_returns_parsed_body[OF k2, of ?c "''/items''" list_options
      "example_platform (Responded (malformed_json_response 200))"]
  note t3 = success_returns_parsed_body[OF k3, of ?c "''/items''" list_options
      "example_platform (Responded (text_response 204 []))"]
  note t4 = success_returns_parsed_body[OF k4, of ?c "''/items''" list_options
      "example_platform (Responded (text_response 200 ''pong''))"]
  have h1: "handleResponse (json_response 200 teapot_body) = Fulfilled teapot_body"
    using t1[THEN conjunct1] by (simp add: parseBody_json_response)
  have b2: "parseBody (malformed_json_response 200) = Fulfilled (JObj [])"
    using t2[THEN conjunct2, THEN conjunct2, THEN conjunct1] j2 by simp
  have b3: "parseBody (text_response 204 []) = Fulfilled (JObj [])"
    using t3[THEN conjunct2, THEN conjunct2, THEN conjunct2, THEN conjunct1] j3 by simp
  have b4: "parseBody (text_response 200 ''pong'') = Fulfilled (JObj [(''message'', JStr ''pong'')])"
    using t4[THEN conjunct2, THEN conjunct2, THEN conjunct2, THEN conjunct1] j3 by simp
  show ?thesis
    using k1 q p h1 run[OF k1] run[OF k2] run[OF k3] run[OF k4]
    by (simp add: b2 b3 b4 parseBody_json_response)
qed

section \<open>The error hook\<close>

lemma handleError_total: "\<not> nullish_thrown err \<Longrightarrow> \<exists>re. handleError err = Inr re"
  by (cases err) (simp_all add: nullish_thrown_def)

lemma try_block_events:
  "try_block pf c url ro tmo = (evs, res) \<Longrightarrow> \<not> list_ex is_OnErrorCalled evs"
  by (auto simp: try_block_def is_OnErrorCalled_def
           split: net_result.splits option.splits outcome.splits)

lemma try_catch_Rejected:
  assumes "try_block pf c url ro tmo = (evs, Rejected err)"
  shows "try_catch pf c url ro tmo = (evs @ fst (catch_block c err), snd (catch_block c err))"
  using assms by (simp add: try_catch_def split: prod.splits)

lemma catch_block_hook:
  assumes "handleError err = Inr re" and "onError c = Some hook"
  shows "catch_block c err =
           ([OnErrorCalled re],
            (case hook re of Fulfilled u \<Rightarrow> Rejected (ThrownRelay re)
             | Rejected e \<Rightarrow> Rejected e | Pending \<Rightarrow> Pending))"
  using assms by (simp add: catch_block_def split: outcome.splits)

lemma catch_block_no_hook:
  assumes "handleError err = Inr re" and "onError c = None"
  shows "catch_block c err = ([], Rejected (ThrownRelay re))"
  using assms by (simp add: catch_block_def)

lemma catch_block_not_Fulfilled: "snd (catch_block c err) \<noteq> Fulfilled v"
  by (simp add: catch_block_def split: sum.splits option.splits outcome.splits)

lemma request_hook_Rejected:
  assumes "onRequest c = Some rh"
    and "rh (requestURL c path options) (requestInit pf c options) = Rejected e"
  shows "request pf c path options =
           ([OnRequestCalled (requestURL c path options) (requestInit pf c options)], Rejected e)"
  using assms by (simp add: request_def Let_def)

lemma try_block_failing_status:
  assumes "fetch_race pf url ro tmo = Responded r" and "response_hook_passes c r"
    and "\<not> resp_ok r" and "parseBody r = Fulfilled d"
  shows "try_block pf c url ro tmo =
           (FetchCalled url ro # (if onResponse c = None then [] else [OnResponseCalled r]),
            Rejected (ThrownRelay (createErrorFromResponse (resp_status r) d)))"
  using try_block_Responded[OF assms(1,2)] handleResponse_not_ok[OF assms(3,4)] by simp

lemma plain_request_url: "requestURL plain_client ''/items'' list_options = list_url"
  by (simp add: requestURL_def plain_client_def new_HTTPClient_def strip_trailing_slash_def
        list_options_def list_url_def appendQueryParams_def Let_def)
     code_simp

lemma plain_request_init: "requestInit pf plain_client list_options = list_init"
  by (simp add: requestInit_def requestHeaders_def requestBody_def plain_client_def
        new_HTTPClient_def list_options_def list_init_def spread_def Let_def)

lemma plain_request_timeout:
  "(case opt_timeout list_options of None \<Rightarrow> timeout plain_client | Some t \<Rightarrow> t) = 5000"
  by (simp add: list_options_def plain_client_def new_HTTPClient_def)

lemma plain_client_hooks:
  "onRequest plain_client = None" "onResponse plain_client = None" "onError plain_client = None"
  by (simp_all add: plain_client_def new_HTTPClient_def)

text \<open>
  The sentence C4 fails in three ways. A failure of the request hook reaches the caller
  as it was thrown, unclassified, and the configured error hook is not called. An error
  hook that throws replaces the classified error by what it throws. A \<open>null\<close> thrown
  inside the exchange makes the classification itself throw a \<open>TypeError\<close>, again without
  the error hook.
\<close>

theorem error_hook_bypassed_counterexample:
  "request (example_platform TimerFirst)
      (hooked_client (Rejected hook_failure) (Fulfilled ()) (Fulfilled ())) ''/items'' list_options
     = ([OnRequestCalled list_url list_init], Rejected hook_failure)
   \<and> request (example_platform (FetchRejected (ThrownTypeError ''fetch failed'')))
      (hooked_client (Fulfilled ()) (Fulfilled ()) (Rejected hook_failure)) ''/items'' list_options
     = ([OnRequestCalled list_url list_init, FetchCalled list_url list_init,
         OnErrorCalled (new_NetworkError
           (JStr ''Network request failed. Please check your connection.'')
           (JObj [(''originalError'', JStr ''fetch failed'')]))],
        Rejected hook_failure)
   \<and> request (example_platform (Responded (json_response 200 teapot_body)))
      (hooked_client (Fulfilled ()) (Rejected (ThrownValue JNull)) (Fulfilled ())) ''/items'' list_options
     = ([OnRequestCalled list_url list_init, FetchCalled list_url list_init,
         OnResponseCalled (json_response 200 teapot_body)],
        Rejected (ThrownTypeError ''Cannot read properties of null or undefined''))"
  by (simp add: request_def Let_def list_request_url list_request_init list_request_timeout
        hooked_client_hooks try_catch_def try_block_def catch_block_def example_platform_def)

text \<open>
  C4, amended. Take a call whose request hook (if configured) completes normally and
  whose exchange then fails: the timer fires first, \<open>fetch\<close> rejects, the response hook
  throws, or the response has a failing status (each of these makes the \<open>try\<close> block
  throw, as the last four parts say). Such a call never ends with a result, whatever the
  error hook does: the hook cannot suppress the failure. When the thrown value is not
  \<open>null\<close> or \<open>undefined\<close>, it is classified. Without an error hook the caller receives
  exactly that classified error and nothing else happens. With an error hook, the hook
  is called with the classified error, exactly once and as the last event of the call,
  and the call ends only with the hook: when the hook completes normally the caller
  receives exactly that classified error, and when the hook never completes neither
  does the call. A failure of the request hook itself reaches the caller as it was
  thrown, with no other event.
\<close>

theorem error_hook_observes_exchange_failure:
  assumes "url = requestURL c path options"
    and "ro = requestInit pf c options"
    and "tmo = (case opt_timeout options of None \<Rightarrow> timeout c | Some t \<Rightarrow> t)"
  shows "(request_hook_passes c url ro \<and> try_block pf c url ro tmo = (evs, Rejected err) \<longrightarrow>
            (\<forall>v. snd (request pf c path options) \<noteq> Fulfilled v)
          \<and> \<not> list_ex is_OnErrorCalled evs
          \<and> (\<not> nullish_thrown err \<longrightarrow>
               (\<exists>re. handleError err = Inr re
                  \<and> (onError c = None \<longrightarrow>
                        request pf c path options =
                          ((if onRequest c = None then [] else [OnRequestCalled url ro]) @ evs,
                           Rejected (ThrownRelay re)))
                  \<and> (\<forall>hook. onError c = Some hook \<longrightarrow>
                        fst (request pf c path options) =
                          (if onRequest c = None then [] else [OnRequestCalled url ro]) @ evs
                          @ [OnErrorCalled re]
                      \<and> (hook re = Fulfilled () \<longrightarrow>
                            snd (request pf c path options) = Rejected (ThrownRelay re))
                      \<and> (hook re = Pending \<longrightarrow> snd (request pf c path options) = Pending)))))
       \<and> (fetch_race pf url ro tmo = TimerFirst \<longrightarrow>
            try_block pf c url ro tmo =
              ([FetchCalled url ro],
               Rejected (ThrownRelay (new_TimeoutError
                 (JStr (''Request timeout after '' @ string_of_int tmo @ ''ms'')) JUndefined))))
       \<and> (\<forall>e. fetch_race pf url ro tmo = FetchRejected e \<longrightarrow>
            try_block pf c url ro tmo = ([FetchCalled url ro], Rejected e))
       \<and> (\<forall>r h e. fetch_race pf url ro tmo = Responded r \<and> onResponse c = Some h
               \<and> h r = Rejected e \<longrightarrow>
            try_block pf c url ro tmo = ([FetchCalled url ro, OnResponseCalled r], Rejected e))
       \<and> (\<forall>r d. fetch_race pf url ro tmo = Responded r \<and> response_hook_passes c r
               \<and> \<not> resp_ok r \<and> parseBody r = Fulfilled d \<longrightarrow>
            try_block pf c url ro tmo =
              (FetchCalled url ro # (if onResponse c = None then [] else [OnResponseCalled r]),
               Rejected (ThrownRelay (createErrorFromResponse (resp_status r) d))))
       \<and> (\<forall>rh e. onRequest c = Some rh \<and> rh url ro = Rejected e \<longrightarrow>
            request pf c path options = ([OnRequestCalled url ro], Rejected e))"
proof -
  let ?pre = "if onRequest c = None then [] else [OnRequestCalled url ro]"
  have last: "\<forall>rh e. onRequest c = Some rh \<and> rh url ro = Rejected e \<longrightarrow>
            request pf c path options = ([OnRequestCalled url ro], Rejected e)"
    using request_hook_Rejected[of c _ path options pf] by (simp add: assms(1,2))
  have timer: "fetch_race pf url ro tmo = TimerFirst \<longrightarrow>
            try_block pf c url ro tmo =
              ([FetchCalled url ro],
               Rejected (ThrownRelay (new_TimeoutError
                 (JStr (''Request timeout after '' @ string_of_int tmo @ ''ms'')) JUndefined)))"
    by (simp add: try_block_def)
  have rejected: "\<forall>e. fetch_race pf url ro tmo = FetchRejected e \<longrightarrow>
            try_block pf c url ro tmo = ([FetchCalled url ro], Rejected e)"
    by (simp add: try_block_def)
  have hook_throws: "\<forall>r h e. fetch_race pf url ro tmo = Responded r \<and> onResponse c = Some h
               \<and> h r = Rejected e \<longrightarrow>
            try_block pf c url ro tmo = ([FetchCalled url ro, OnResponseCalled r], Rejected e)"
    by (simp add: try_block_def)
  have failing: "\<forall>r d. fetch_race pf url ro tmo = Responded r \<and> response_hook_passes c r
               \<and> \<not> resp_ok r \<and> parseBody r = Fulfilled d \<longrightarrow>
            try_block pf c url ro tmo =
              (FetchCalled url ro # (if onResponse c = None then [] else [OnResponseCalled r]),
               Rejected (ThrownRelay (createErrorFromResponse (resp_status r) d)))"
    using try_block_failing_status[of pf url ro tmo _ c] by blast
  have first: "(\<forall>v. snd (request pf c path options) \<noteq> Fulfilled v)
          \<and> \<not> list_ex is_OnErrorCalled evs
          \<and> (\<not> nullish_thrown err \<longrightarrow>
               (\<exists>re. handleError err = Inr re
                  \<and> (onError c = None \<longrightarrow>
                        request pf c path options = (?pre @ evs, Rejected (ThrownRelay re)))
                  \<and> (\<forall>hook. onError c = Some hook \<longrightarrow>
                        fst (request pf c path options) = ?pre @ evs @ [OnErrorCalled re]
                      \<and> (hook re = Fulfilled () \<longrightarrow>
                            snd (request pf c path options) = Rejected (ThrownRelay re))
                      \<and> (hook re = Pending \<longrightarrow> snd (request pf c path options) = Pending))))"
    if p: "request_hook_passes c url ro"
      and t: "try_block pf c url ro tmo = (evs, Rejected err)"
  proof -
    have tc: "try_catch pf c url ro tmo = (evs @ fst (catch_block c err), snd (catch_block c err))"
      using t by (rule try_catch_Rejected)
    have rq: "request pf c path options =
                (?pre @ evs @ fst (catch_block c err), snd (catch_block c err))"
      using request_after_hook[of c path options pf] p tc by (simp add: assms)
    have nf: "\<forall>v. snd (request pf c path options) \<noteq> Fulfilled v"
      by (simp add: rq catch_block_not_Fulfilled)
    have ev: "\<not> list_ex is_OnErrorCalled evs"
      using t by (rule try_block_events)
    have cl: "\<exists>re. handleError err = Inr re
                  \<and> (onError c = None \<longrightarrow>
                        request pf c path options = (?pre @ evs, Rejected (ThrownRelay re)))
                  \<and> (\<forall>hook. onError c = Some hook \<longrightarrow>
                        fst (request pf c path options) = ?pre @ evs @ [OnErrorCalled re]
                      \<and> (hook re = Fulfilled () \<longrightarrow>
                            snd (request pf c path options) = Rejected (ThrownRelay re))
                      \<and> (hook re = Pending \<longrightarrow> snd (request pf c path options) = Pending))"
      if n: "\<not> nullish_thrown err"
    proof -
      obtain re where re: "handleError err = Inr re"
        using handleError_total[OF n] by blast
      have a: "onError c = None \<longrightarrow>
                 request pf c path options = (?pre @ evs, Rejected (ThrownRelay re))"
        using catch_block_no_hook[OF re] by (simp add: rq)
      have b: "\<forall>hook. onError c = Some hook \<longrightarrow>
                        fst (request pf c path options) = ?pre @ evs @ [OnErrorCalled re]
                      \<and> (hook re = Fulfilled () \<longrightarrow>
                            snd (request pf c path options) = Rejected (ThrownRelay re))
                      \<and> (hook re = Pending \<longrightarrow> snd (request pf c path options) = Pending)"
        using catch_block_hook[OF re] by (simp add: rq)
      show ?thesis
        by (rule exI[of _ re]) (rule conjI[OF re conjI[OF a b]])
    qed
    show ?thesis
      by (intro conjI impI nf ev cl)
  qed
  have first': "request_hook_passes c url ro \<and> try_block pf c url ro tmo = (evs, Rejected err) \<longrightarrow>
            (\<forall>v. snd (request pf c path options) \<noteq> Fulfilled v)
          \<and> \<not> list_ex is_OnErrorCalled evs
          \<and> (\<not> nullish_thrown err \<longrightarrow>
               (\<exists>re. handleError err = Inr re
                  \<and> (onError c = None \<longrightarrow>
                        request pf c path options = (?pre @ evs, Rejected (ThrownRelay re)))
                  \<and> (\<forall>hook. onError c = Some hook \<longrightarrow>
                        fst (request pf c path options) = ?pre @ evs @ [OnErrorCalled re]
                      \<and> (hook re = Fulfilled () \<longrightarrow>
                            snd (request pf c path options) = Rejected (ThrownRelay re))
                      \<and> (hook re = Pending \<longrightarrow> snd (request pf c path options) = Pending))))"
  proof (intro impI, elim conjE)
    assume p: "request_hook_passes c url ro"
      and t: "try_block pf c url ro tmo = (evs, Rejected err)"
    show "(\<forall>v. snd (request pf c path options) \<noteq> Fulfilled v)
          \<and> \<not> list_ex is_OnErrorCalled evs
          \<and> (\<not> nullish_thrown err \<longrightarrow>
               (\<exists>re. handleError err = Inr re
                  \<and> (onError c = None \<longrightarrow>
                        request pf c path options = (?pre @ evs, Rejected (ThrownRelay re)))
                  \<and> (\<forall>hook. onError c = Some hook \<longrightarrow>
                        fst (request pf c path options) = ?pre @ evs @ [OnErrorCalled re]
                      \<and> (hook re = Fulfilled () \<longrightarrow>
                            snd (request pf c path options) = Rejected (ThrownRelay re))
                      \<and> (hook re = Pending \<longrightarrow> snd (request pf c path options) = Pending))))"
      using p t by (rule first)
  qed
  show ?thesis
    by (rule conjI[OF first' conjI[OF timer conjI[OF rejected conjI[OF hook_throws
          conjI[OF failing last]]]]])
qed

theorem error_hook_observes_exchange_failure_witness:
  "request_hook_passes (hooked_client (Fulfilled ()) (Fulfilled ()) (Fulfilled ())) list_url list_init
   \<and> try_block (example_platform TimerFirst)
        (hooked_client (Fulfilled ()) (Fulfilled ()) (Fulfilled ())) list_url list_init 5000
      = ([FetchCalled list_url list_init],
         Rejected (ThrownRelay (new_TimeoutError (JStr ''Request timeout after 5000ms'') JUndefined)))
   \<and> request (example_platform TimerFirst)
        (hooked_client (Fulfilled ()) (Fulfilled ()) (Fulfilled ())) ''/items'' list_options
      = ([OnRequestCalled list_url list_init, FetchCalled list_url list_init,
          OnErrorCalled (new_TimeoutError (JStr ''Request timeout after 5000ms'') JUndefined)],
         Rejected (ThrownRelay (new_TimeoutError (JStr ''Request timeout after 5000ms'') JUndefined)))
   \<and> \<not> resp_ok (json_response 404 teapot_body)
   \<and> request (example_platform (Responded (json_response 404 teapot_body)))
        (hooked_client (Fulfilled ()) (Fulfilled ()) (Fulfilled ())) ''/items'' list_options
      = ([OnRequestCalled list_url list_init, FetchCalled list_url list_init,
          OnResponseCalled (json_response 404 teapot_body),
          OnErrorCalled (createErrorFromResponse 404 teapot_body)],
         Rejected (ThrownRelay (createErrorFromResponse 404 teapot_body)))
   \<and> onError plain_client = None
   \<and> request (example_platform (Responded (json_response 404 teapot_body)))
        plain_client ''/items'' list_options
      = ([FetchCalled list_url list_init],
         Rejected (ThrownRelay (createErrorFromResponse 404 teapot_body)))
   \<and> cls (createErrorFromResponse 404 teapot_body) = NotFoundError
   \<and> request (example_platform TimerFirst)
        (hooked_client (Rejected hook_failure) (Fulfilled ()) (Fulfilled ())) ''/items'' list_options
      = ([OnRequestCalled list_url list_init], Rejected hook_failure)"
proof -
  let ?c = "hooked_client (Fulfilled ()) (Fulfilled ()) (Fulfilled ())"
  let ?d = "hooked_client (Rejected hook_failure) (Fulfilled ()) (Fulfilled ())"
  let ?te = "new_TimeoutError (JStr ''Request timeout after 5000ms'') JUndefined"
  let ?r = "json_response 404 teapot_body"
  let ?e = "createErrorFromResponse 404 teapot_body"
  have u: "list_url = requestURL (hooked_client a b e) ''/items'' list_options" for a b e
    by (simp add: list_request_url)
  have i: "list_init = requestInit pf (hooked_client a b e) list_options" for pf a b e
    by (simp add: list_request_init)
  have m: "5000 = (case opt_timeout list_options of None \<Rightarrow> timeout (hooked_client a b e)
                   | Some t \<Rightarrow> t)" for a b e
    by (simp add: list_request_timeout)
  have pu: "list_url = requestURL plain_client ''/items'' list_options"
    by (simp add: plain_request_url)
  have pi: "list_init = requestInit pf plain_client list_options" for pf
    by (simp add: plain_request_init)
  have pm: "5000 = (case opt_timeout list_options of None \<Rightarrow> timeout plain_client | Some t \<Rightarrow> t)"
    by (simp add: plain_request_timeout)
  have q: "request_hook_passes ?c list_url list_init"
    by (simp add: request_hook_passes_def hooked_client_hooks)
  have pq: "request_hook_passes plain_client list_url list_init"
    by (simp add: request_hook_passes_def plain_client_hooks)
  have p: "response_hook_passes ?c r" for r
    by (simp add: response_hook_passes_def hooked_client_hooks)
  have pp: "response_hook_passes plain_client r" for r
    by (simp add: response_hook_passes_def plain_client_hooks)
  have he: "onError ?c = Some (\<lambda>err. Fulfilled ())"
    by (simp add: hooked_client_hooks)
  have hn: "onRequest ?c \<noteq> None" "onResponse ?c \<noteq> None"
    by (simp_all add: hooked_client_hooks)
  have s: "string_of_int 5000 = ''5000''"
    by (simp add: string_of_int_def digit_char_def)
  have nr: "\<not> nullish_thrown (ThrownRelay x)" for x
    by (simp add: nullish_thrown_def)
  have k: "\<not> resp_ok ?r"
    by (simp add: resp_ok_def json_response_def)
  have st: "resp_status ?r = 404"
    by (simp add: json_response_def)

  have hooked_run:
    "request pf ?c ''/items'' list_options =
       (OnRequestCalled list_url list_init # evs @ [OnErrorCalled x], Rejected (ThrownRelay x))"
    if tb: "try_block pf ?c list_url list_init 5000 = (evs, Rejected (ThrownRelay x))"
    for pf evs x
  proof -
    note t = error_hook_observes_exchange_failure[OF u i m, of "Fulfilled ()" "Fulfilled ()"
        "Fulfilled ()" pf, where evs = evs and err = "ThrownRelay x"]
    note c3 = t[THEN conjunct1, THEN mp, OF conjI[OF q tb], THEN conjunct2, THEN conjunct2,
        THEN mp, OF nr]
    obtain re where re: "handleError (ThrownRelay x) = Inr re"
      and hk: "\<forall>hook. onError ?c = Some hook \<longrightarrow>
                 fst (request pf ?c ''/items'' list_options) =
                   (if onRequest ?c = None then [] else [OnRequestCalled list_url list_init])
                   @ evs @ [OnErrorCalled re]
               \<and> (hook re = Fulfilled () \<longrightarrow>
                     snd (request pf ?c ''/items'' list_options) = Rejected (ThrownRelay re))
               \<and> (hook re = Pending \<longrightarrow> snd (request pf ?c ''/items'' list_options) = Pending)"
      using c3 by (elim exE conjE) 
    have x: "re = x" using re by simp
    note h = hk[rule_format, OF he]
    have f: "fst (request pf ?c ''/items'' list_options) =
               OnRequestCalled list_url list_init # evs @ [OnErrorCalled x]"
      using h[THEN conjunct1] by (simp add: hn x)
    have g: "snd (request pf ?c ''/items'' list_options) = Rejected (ThrownRelay x)"
      using h[THEN conjunct2, THEN conjunct1] by (simp add: x)
    show ?thesis using f g by (simp add: prod_eq_iff)
  qed

  have plain_run:
    "request pf plain_client ''/items'' list_options = (evs, Rejected (ThrownRelay x))"
    if tb: "try_block pf plain_client list_url list_init 5000 = (evs, Rejected (ThrownRelay x))"
    for pf evs x
  proof -
    note t = error_hook_observes_exchange_failure[OF pu pi pm, of pf,
        where evs = evs and err = "ThrownRelay x"]
    note c3 = t[THEN conjunct1, THEN mp, OF conjI[OF pq tb], THEN conjunct2, THEN conjunct2,
        THEN mp, OF nr]
    obtain re where re: "handleError (ThrownRelay x) = Inr re"
      and nh: "onError plain_client = None \<longrightarrow>
                 request pf plain_client ''/items'' list_options =
                   ((if onRequest plain_client = None then []
                     else [OnRequestCalled list_url list_init]) @ evs,
                    Rejected (ThrownRelay re))"
      using c3 by (elim exE conjE)
    have x: "re = x" using re by simp
    show ?thesis using nh by (simp add: plain_client_hooks x)
  qed

  note tt = error_hook_observes_exchange_failure[OF u i m, of "Fulfilled ()" "Fulfilled ()"
      "Fulfilled ()" "example_platform TimerFirst"]
  have t1: "try_block (example_platform TimerFirst) ?c list_url list_init 5000
            = ([FetchCalled list_url list_init], Rejected (ThrownRelay ?te))"
    using tt[THEN conjunct2, THEN conjunct1] by (simp add: example_platform_def s)
  have r1: "request (example_platform TimerFirst) ?c ''/items'' list_options
      = ([OnRequestCalled list_url list_init, FetchCalled list_url list_init, OnErrorCalled ?te],
         Rejected (ThrownRelay ?te))"
    using hooked_run[OF t1] by simp

  note tf = error_hook_observes_exchange_failure[OF u i m, of "Fulfilled ()" "Fulfilled ()"
      "Fulfilled ()" "example_platform (Responded ?r)"]
  have fr: "fetch_race (example_platform (Responded ?r)) list_url list_init 5000 = Responded ?r"
    by (simp add: example_platform_def)
  have t2: "try_block (example_platform (Responded ?r)) ?c list_url list_init 5000
            = ([FetchCalled list_url list_init, OnResponseCalled ?r], Rejected (ThrownRelay ?e))"
    using tf[THEN conjunct2, THEN conjunct2, THEN conjunct2, THEN conjunct2, THEN conjunct1,
        rule_format, OF conjI[OF fr conjI[OF p conjI[OF k parseBody_json_response]]]]
    by (simp add: hn st)
  have r2: "request (example_platform (Responded ?r)) ?c ''/items'' list_options
      = ([OnRequestCalled list_url list_init, FetchCalled list_url list_init,
          OnResponseCalled ?r, OnErrorCalled ?e], Rejected (ThrownRelay ?e))"
    using hooked_run[OF t2] by simp

  note tp = error_hook_observes_exchange_failure[OF pu pi pm, of "example_platform (Responded ?r)"]
  have t3: "try_block (example_platform (Responded ?r)) plain_client list_url list_init 5000
            = ([FetchCalled list_url list_init], Rejected (ThrownRelay ?e))"
    using tp[THEN conjunct2, THEN conjunct2, THEN conjunct2, THEN conjunct2, THEN conjunct1,
        rule_format, OF conjI[OF fr conjI[OF pp conjI[OF k parseBody_json_response]]]]
    by (simp add: plain_client_hooks st)
  have r3: "request (example_platform (Responded ?r)) plain_client ''/items'' list_options
      = ([FetchCalled list_url list_init], Rejected (ThrownRelay ?e))"
    using t3 by (rule plain_run)

  note td = error_hook_observes_exchange_failure[OF u i m, of "Rejected hook_failure" "Fulfilled ()"
      "Fulfilled ()" "example_platform TimerFirst"]
  have hd: "onRequest ?d = Some (\<lambda>url ro. Rejected hook_failure)"
    by (simp add: hooked_client_hooks)
  have r4: "request (example_platform TimerFirst) ?d ''/items'' list_options
            = ([OnRequestCalled list_url list_init], Rejected hook_failure)"
    using td[THEN conjunct2, THEN conjunct2, THEN conjunct2, THEN conjunct2, THEN conjunct2,
        rule_format, OF conjI[OF hd refl]] .
  have kc: "cls ?e = NotFoundError"
    by (simp add: cls_create spec_kind_def)
  show ?thesis
    using q t1 r1 k r2 r3 r4 kc by (simp add: plain_client_hooks)
qed

end
